theory Spec2Isabelle
  imports Main "HOL-Library.Word" "HOL-Library.Sublist"
begin

unbundle bit_operations_syntax

section \<open>GLib and libc primitives used by connman\_service.c\<close>

text \<open>
  A \<open>gchar *\<close> is \<open>None\<close> (the NULL pointer) or \<open>Some s\<close>, the characters before the
  terminating NUL.  \<open>strcmp\<close> compares bytes as unsigned values; only the sign of its
  result is defined, which is all the program looks at.
\<close>

fun strcmp :: "string \<Rightarrow> string \<Rightarrow> int" where
  "strcmp [] [] = 0"
| "strcmp [] (y # ys) = - 1"
| "strcmp (x # xs) [] = 1"
| "strcmp (x # xs) (y # ys) =
     (if x = y then strcmp xs ys
      else if (of_char x :: nat) < of_char y then - 1 else 1)"

text \<open>\<open>g_strcmp0\<close>: \<open>strcmp\<close> that accepts NULL, which sorts before every string.\<close>

fun g_strcmp0 :: "string option \<Rightarrow> string option \<Rightarrow> int" where
  "g_strcmp0 None None = 0"
| "g_strcmp0 None (Some b) = - 1"
| "g_strcmp0 (Some a) None = 1"
| "g_strcmp0 (Some a) (Some b) = strcmp a b"

text \<open>
  \<open>g_strrstr haystack needle\<close>: the offset of the last occurrence of \<open>needle\<close> in
  \<open>haystack\<close>, searched from the last possible start position downwards, or \<open>None\<close>
  for the NULL result.
\<close>

fun strrstr_from :: "string \<Rightarrow> string \<Rightarrow> nat \<Rightarrow> nat option" where
  "strrstr_from h n 0 = (if prefix n h then Some 0 else None)"
| "strrstr_from h n (Suc p) =
     (if prefix n (drop (Suc p) h) then Some (Suc p) else strrstr_from h n p)"

definition g_strrstr :: "string \<Rightarrow> string \<Rightarrow> nat option" where
  "g_strrstr haystack needle =
     (if needle = [] then Some 0
      else if length haystack < length needle then None
      else strrstr_from haystack needle (length haystack - length needle))"

text \<open>
  \<open>g_strlcpy dest src dest_size\<close>, for a buffer of at least one byte: the string left
  in \<open>dest\<close>, at most \<open>dest_size - 1\<close> characters of \<open>src\<close>, and the return value
  \<open>strlen src\<close>.
\<close>

definition g_strlcpy :: "string \<Rightarrow> nat \<Rightarrow> string \<times> nat" where
  "g_strlcpy src dest_size = (take (dest_size - 1) src, length src)"

section \<open>Data model\<close>

type_synonym guchar = "8 word"
type_synonym gint = "32 word"
type_synonym guint = "32 word"

text \<open>
  A \<open>GVariant *\<close>.  Containers (arrays, tuples, dictionary entries) are kept as the
  list of their children, which is what \<open>g_variant_n_children\<close> and
  \<open>g_variant_get_child_value\<close> see; \<open>GBoxed\<close> is a value of type variant and
  \<open>GNull\<close> the NULL pointer.
\<close>

datatype gvariant =
    GString string
  | GBoolean bool
  | GByte guchar
  | GUInt16 "16 word"
  | GInt32 gint
  | GUInt32 guint
  | GByteString "guchar list"
  | GStrv "string list"
  | GBoxed gvariant
  | GContainer "gvariant list"
  | GNull

text \<open>
  Modelled from the spec: the enumerations \<open>CONNMAN_SERVICE_STATE_*\<close> and
  \<open>CONNMAN_SERVICE_TYPE_*\<close> are declared in connman\_service.h, a header that is not
  available.  The spec lists seven states and three service types;
  \<open>CONNMAN_SERVICE_TYPE_UNKNOWN\<close> stands for any other value of the type field (a
  freshly zero-allocated service whose "Type" property was not recognised).
\<close>

datatype connman_service_state =
    CONNMAN_SERVICE_STATE_IDLE
  | CONNMAN_SERVICE_STATE_ASSOCIATION
  | CONNMAN_SERVICE_STATE_CONFIGURATION
  | CONNMAN_SERVICE_STATE_READY
  | CONNMAN_SERVICE_STATE_ONLINE
  | CONNMAN_SERVICE_STATE_DISCONNECT
  | CONNMAN_SERVICE_STATE_FAILURE

datatype connman_service_type =
    CONNMAN_SERVICE_TYPE_UNKNOWN
  | CONNMAN_SERVICE_TYPE_WIFI
  | CONNMAN_SERVICE_TYPE_ETHERNET
  | CONNMAN_SERVICE_TYPE_P2P

record ipv4info_t =
  ipv4_method :: "string option"
  ipv4_address :: "string option"
  ipv4_netmask :: "string option"
  ipv4_gateway :: "string option"
  ipv4_prefix_len :: gint

record ipv6info_t =
  ipv6_method :: "string option"
  ipv6_address :: "string option"
  ipv6_gateway :: "string option"
  ipv6_prefix_length :: gint

record ipinfo_t =
  iface :: "string option"
  ipv4 :: ipv4info_t
  ipv6 :: ipv6info_t
  dns :: "string list option"

record proxyinfo_t =
  proxy_method :: "string option"
  proxy_url :: "string option"
  proxy_servers :: "string list option"
  proxy_excludes :: "string list option"

text \<open>
  The structs are declared in the same header; their fields here are the ones
  connman\_service.c reads and writes.  A field name that occurs in several structs
  carries the struct as a prefix (\<open>ipv4_address\<close>, \<open>peer_address\<close>).  In
  \<open>struct peer\<close> the integer-valued Wi-Fi Display fields are taken as 32-bit values
  (every value the parser stores fits in 16 bits).
\<close>

record peer =
  peer_address :: "string option"
  pri_dev_type :: "string option"
  group_owner :: bool
  config_method :: "16 word"
  wfd_enabled :: bool
  wfd_devtype :: guint
  wfd_sessionavail :: guint
  wfd_cpsupport :: guint
  wfd_rtspport :: guint

record bssinfo_t =
  bssid :: string
  signal :: gint
  frequency :: gint

text \<open>
  \<open>connman_service_t\<close>.  Function pointers and the cancellation token are kept by
  identity: \<open>None\<close> is NULL.  \<open>bss\<close> is the \<open>GArray\<close> of BSS entries or NULL.
\<close>

record connman_service_t =
  path :: "string option"
  name :: "string option"
  state :: "string option"
  error :: "string option"
  address :: "string option"
  interface_name :: "string option"
  mac_address :: "string option"
  display_name :: "string option"
  ssid :: "string option"
  ssid_len :: nat
  type :: connman_service_type
  strength :: guchar
  security :: "string list option"
  auto_connect :: bool
  immutable :: bool
  favorite :: bool
  online :: bool
  online_checking :: bool
  hidden :: bool
  disconnecting :: bool
  iprule_added :: bool
  change_mask :: guint
  ipinfo :: ipinfo_t
  proxyinfo :: proxyinfo_t
  peer :: peer
  bss :: "bssinfo_t list option"
  cancellable :: "nat option"
  handle_property_change_fn :: "nat option"
  handle_p2p_request_fn :: "nat option"

section \<open>Change-tracking notifier\<close>

definition connman_service_unset_changed :: "connman_service_t \<Rightarrow> guint \<Rightarrow> connman_service_t" where
  "connman_service_unset_changed service category =
     service\<lparr>change_mask := change_mask service AND NOT category\<rparr>"

definition connman_service_set_changed :: "connman_service_t \<Rightarrow> guint \<Rightarrow> connman_service_t" where
  "connman_service_set_changed service category =
     service\<lparr>change_mask := change_mask service OR category\<rparr>"

text \<open>
  \<open>connman_service_is_changed\<close> returns the masked word as a \<open>gboolean\<close> (a C int);
  callers test it for being non-zero.
\<close>

definition connman_service_is_changed :: "connman_service_t \<Rightarrow> guint \<Rightarrow> gint" where
  "connman_service_is_changed service category = change_mask service AND category"

definition gboolean_true :: "gint \<Rightarrow> bool" where
  "gboolean_true b = (b \<noteq> 0)"

section \<open>State-string vocabulary\<close>

definition connman_service_get_state :: "string option \<Rightarrow> connman_service_state" where
  "connman_service_get_state st =
     (if st = None then CONNMAN_SERVICE_STATE_IDLE
      else if g_strcmp0 st (Some ''idle'') = 0 then CONNMAN_SERVICE_STATE_IDLE
      else if g_strcmp0 st (Some ''association'') = 0 then CONNMAN_SERVICE_STATE_ASSOCIATION
      else if g_strcmp0 st (Some ''configuration'') = 0 then CONNMAN_SERVICE_STATE_CONFIGURATION
      else if g_strcmp0 st (Some ''ready'') = 0 then CONNMAN_SERVICE_STATE_READY
      else if g_strcmp0 st (Some ''online'') = 0 then CONNMAN_SERVICE_STATE_ONLINE
      else if g_strcmp0 st (Some ''disconnect'') = 0 then CONNMAN_SERVICE_STATE_DISCONNECT
      else if g_strcmp0 st (Some ''failure'') = 0 then CONNMAN_SERVICE_STATE_FAILURE
      else CONNMAN_SERVICE_STATE_IDLE)"

section \<open>Peer capability parser\<close>

definition Bit0 :: "32 word" where "Bit0 = 0x01"
definition Bit1 :: "32 word" where "Bit1 = 0x02"

text \<open>
  Reading \<open>wfd_subelems[i]\<close>: the byte promoted to \<open>int\<close>, or \<open>None\<close> when the index
  lies outside the buffer (undefined behaviour in C).
\<close>

definition subelem :: "guchar list \<Rightarrow> nat \<Rightarrow> 32 word option" where
  "subelem wfd_subelems i =
     (if i < length wfd_subelems then Some (ucast (wfd_subelems ! i)) else None)"

text \<open>
  The length-field test \<open>wfd_subelems[1] != 0x00 && wfd_subelems[2] != 0x06\<close>:
  \<open>wfd_subelems[2]\<close> is read only when \<open>wfd_subelems[1]\<close> is non-zero, since
  \<open>&&\<close> short-circuits.
\<close>

definition length_field_rejected :: "guchar list \<Rightarrow> bool option" where
  "length_field_rejected wfd_subelems =
     Option.bind (subelem wfd_subelems 1) (\<lambda>b1.
       if b1 \<noteq> 0x00
       then Option.bind (subelem wfd_subelems 2) (\<lambda>b2. Some (b2 \<noteq> 0x06))
       else Some False)"

text \<open>The assignments after the three checks, in the order of the source.\<close>

definition store_wfd_dev_info :: "guchar list \<Rightarrow> peer \<Rightarrow> peer option" where
  "store_wfd_dev_info wfd_subelems p =
     Option.bind (subelem wfd_subelems 4) (\<lambda>b4.
     Option.bind (subelem wfd_subelems 3) (\<lambda>b3.
     Option.bind (subelem wfd_subelems 5) (\<lambda>b5.
     Option.bind (subelem wfd_subelems 6) (\<lambda>b6.
       Some (p\<lparr>wfd_enabled := True,
               wfd_devtype := b4 AND (Bit0 OR Bit1),
               wfd_sessionavail := (drop_bit 4 b4) AND (Bit0 OR Bit1),
               wfd_cpsupport := b3 AND Bit0,
               wfd_rtspport := (push_bit 8 b5) + b6\<rparr>)))))"

text \<open>
  \<open>p2p_parse_wfd_dev_info\<close>.  Each of the three early returns leaves \<open>peer\<close> as it
  is.
\<close>

definition p2p_parse_wfd_dev_info :: "guchar list \<Rightarrow> int \<Rightarrow> peer \<Rightarrow> peer option" where
  "p2p_parse_wfd_dev_info wfd_subelems len p =
     (if len < 9 then Some p
      else Option.bind (subelem wfd_subelems 0) (\<lambda>b0.
        if b0 \<noteq> 0x00 then Some p
        else Option.bind (length_field_rejected wfd_subelems) (\<lambda>rejected.
          if rejected then Some p
          else store_wfd_dev_info wfd_subelems p)))"

text \<open>A service as \<open>g_new0\<close> leaves it in \<open>connman_service_new\<close>: every field zero.\<close>

definition peer_zero :: peer where
  "peer_zero = \<lparr>peer_address = None, pri_dev_type = None, group_owner = False,
     config_method = 0, wfd_enabled = False, wfd_devtype = 0, wfd_sessionavail = 0,
     wfd_cpsupport = 0, wfd_rtspport = 0\<rparr>"

definition ipinfo_zero :: ipinfo_t where
  "ipinfo_zero = \<lparr>iface = None,
     ipv4 = \<lparr>ipv4_method = None, ipv4_address = None, ipv4_netmask = None,
              ipv4_gateway = None, ipv4_prefix_len = 0\<rparr>,
     ipv6 = \<lparr>ipv6_method = None, ipv6_address = None, ipv6_gateway = None,
              ipv6_prefix_length = 0\<rparr>,
     dns = None\<rparr>"

definition proxyinfo_zero :: proxyinfo_t where
  "proxyinfo_zero = \<lparr>proxy_method = None, proxy_url = None, proxy_servers = None,
     proxy_excludes = None\<rparr>"

definition service_zero :: connman_service_t where
  "service_zero = \<lparr>path = None, name = None, state = None, error = None, address = None,
     interface_name = None, mac_address = None, display_name = None, ssid = None,
     ssid_len = 0, type = CONNMAN_SERVICE_TYPE_UNKNOWN, strength = 0, security = None,
     auto_connect = False, immutable = False, favorite = False, online = False,
     online_checking = False, hidden = False, disconnecting = False, iprule_added = False,
     change_mask = 0, ipinfo = ipinfo_zero, proxyinfo = proxyinfo_zero, peer = peer_zero,
     bss = None, cancellable = None, handle_property_change_fn = None,
     handle_p2p_request_fn = None\<rparr>"

section \<open>GVariant accessors\<close>

text \<open>
  The scalar getters check the type of their argument with \<open>g_return_val_if_fail\<close>
  and give 0, FALSE or NULL on a value of another type.
\<close>

definition g_variant_get_string :: "gvariant \<Rightarrow> string option" where
  "g_variant_get_string v = (case v of GString s \<Rightarrow> Some s | _ \<Rightarrow> None)"

definition g_variant_dup_string :: "gvariant \<Rightarrow> string option" where
  "g_variant_dup_string v = g_variant_get_string v"

definition g_variant_get_boolean :: "gvariant \<Rightarrow> bool" where
  "g_variant_get_boolean v = (case v of GBoolean b \<Rightarrow> b | _ \<Rightarrow> False)"

definition g_variant_get_byte :: "gvariant \<Rightarrow> guchar" where
  "g_variant_get_byte v = (case v of GByte b \<Rightarrow> b | _ \<Rightarrow> 0)"

definition g_variant_get_uint16 :: "gvariant \<Rightarrow> 16 word" where
  "g_variant_get_uint16 v = (case v of GUInt16 n \<Rightarrow> n | _ \<Rightarrow> 0)"

definition g_variant_get_int32 :: "gvariant \<Rightarrow> gint" where
  "g_variant_get_int32 v = (case v of GInt32 n \<Rightarrow> n | _ \<Rightarrow> 0)"

definition g_variant_get_uint32 :: "gvariant \<Rightarrow> guint" where
  "g_variant_get_uint32 v = (case v of GUInt32 n \<Rightarrow> n | _ \<Rightarrow> 0)"

definition g_variant_dup_strv :: "gvariant \<Rightarrow> string list option" where
  "g_variant_dup_strv v = (case v of GStrv xs \<Rightarrow> Some xs | _ \<Rightarrow> None)"

text \<open>
  \<open>g_variant_get_variant\<close> unboxes, and gives NULL on a value that is no variant.
  Container access: a boxed variant has exactly one child, its content, and the
  children of a string array or byte array are its elements.  Asking a
  value that is no container for its children, or for a child that is not there, is a
  failed assertion in GLib: the accessors give \<open>None\<close> and the caller stops.
\<close>

definition g_variant_children :: "gvariant \<Rightarrow> gvariant list option" where
  "g_variant_children v =
     (case v of
        GContainer xs \<Rightarrow> Some xs
      | GBoxed x \<Rightarrow> Some [x]
      | GStrv xs \<Rightarrow> Some (map GString xs)
      | GByteString bs \<Rightarrow> Some (map GByte bs)
      | _ \<Rightarrow> None)"

definition g_variant_get_child_value :: "gvariant \<Rightarrow> nat \<Rightarrow> gvariant option" where
  "g_variant_get_child_value v i =
     (case g_variant_children v of
        None \<Rightarrow> None
      | Some xs \<Rightarrow> if i < length xs then Some (xs ! i) else None)"

definition g_variant_get_variant :: "gvariant \<Rightarrow> gvariant" where
  "g_variant_get_variant v = (case v of GBoxed x \<Rightarrow> x | _ \<Rightarrow> GNull)"

text \<open>
  \<open>g_variant_lookup_value dictionary key expected_type\<close>, with the expected type
  given as a predicate.  The function first checks that \<open>dictionary\<close> is an array of
  dictionary entries with string keys and gives NULL otherwise.  Then the first entry
  whose key equals \<open>key\<close> decides: its value is unboxed, and the result is NULL when
  the value has not the expected type.
\<close>

definition is_dict_entry :: "gvariant \<Rightarrow> bool" where
  "is_dict_entry entry = (case entry of GContainer [GString k, v] \<Rightarrow> True | _ \<Rightarrow> False)"

fun dict_find :: "gvariant list \<Rightarrow> string \<Rightarrow> gvariant option" where
  "dict_find [] key = None"
| "dict_find (entry # rest) key =
     (case entry of
        GContainer [GString k, v] \<Rightarrow> if k = key then Some v else dict_find rest key
      | _ \<Rightarrow> dict_find rest key)"

definition g_variant_lookup_value ::
  "gvariant \<Rightarrow> string \<Rightarrow> (gvariant \<Rightarrow> bool) \<Rightarrow> gvariant option" where
  "g_variant_lookup_value dictionary key expected_type =
     (case dictionary of
        GContainer entries \<Rightarrow>
          if list_all is_dict_entry entries
          then (case dict_find entries key of
                  None \<Rightarrow> None
                | Some (GBoxed x) \<Rightarrow> if expected_type x then Some x else None
                | Some v \<Rightarrow> if expected_type v then Some v else None)
          else None
      | _ \<Rightarrow> None)"

definition G_VARIANT_TYPE_STRING :: "gvariant \<Rightarrow> bool" where
  "G_VARIANT_TYPE_STRING v = (case v of GString s \<Rightarrow> True | _ \<Rightarrow> False)"

definition G_VARIANT_TYPE_INT32 :: "gvariant \<Rightarrow> bool" where
  "G_VARIANT_TYPE_INT32 v = (case v of GInt32 n \<Rightarrow> True | _ \<Rightarrow> False)"

definition G_VARIANT_TYPE_BYTESTRING :: "gvariant \<Rightarrow> bool" where
  "G_VARIANT_TYPE_BYTESTRING v = (case v of GByteString bs \<Rightarrow> True | _ \<Rightarrow> False)"

section \<open>The world around a service\<close>

text \<open>
  A \<open>GCancellable\<close> object with the references this program holds on it.  Objects
  live in a store indexed by their identity; a released object leaves \<open>None\<close> behind,
  and a fresh object gets the next index, so identities are never reused.
\<close>

record gcancellable =
  ref_count :: nat
  cancelled :: bool

text \<open>
  Modelled from the spec: \<open>struct cb_data\<close> and \<open>cb_data_new\<close> belong to the
  utilities (utils.h), which are not available.  The connect callbacks read the
  fields \<open>cb\<close>, \<open>data\<close> and \<open>user\<close>, and the spec has the completion call the
  caller's \<open>onComplete\<close>; so \<open>cb_data_new cb user_data\<close> is taken to store its
  arguments in \<open>cb\<close> (NULL or a function, by identity) and \<open>data\<close>.  The
  \<open>user\<close> field is the service the functions below receive.
\<close>

record cb_data =
  cb :: "nat option"
  data :: nat

datatype remote_call =
    CALL_CONNECT
  | CALL_PEER_CONNECT
  | CALL_DISCONNECT
  | CALL_PEER_DISCONNECT
  | CALL_REMOVE
  | CALL_REJECT_PEER
  | CALL_SET_DEFAULT
  | CALL_SET_PROPERTY string gvariant
  | CALL_GET_PROPERTIES

text \<open>What the program does to its collaborators, in the order it does it.\<close>

datatype event =
    RemoteAsync remote_call "nat option" cb_data
  | RemoteSync remote_call
  | ConnectCb nat bool nat
  | PropertyChangeFn nat string gvariant
  | P2PRequestFn nat gint "string option" "string option" string
  | ServicePropertyChanged "string option" string gvariant
  | SendStatusToSubscribers
  | TechnologyUpdateProperties
  | SystemCommand string
  | SignalHandlerDisconnect

record sys =
  cancellables :: "gcancellable option list"
  invalid_unref :: bool
  subscibed_for_diagnostiecs :: bool
  trace :: "event list"

definition emit :: "event \<Rightarrow> sys \<Rightarrow> sys" where
  "emit e w = w\<lparr>trace := trace w @ [e]\<rparr>"

definition lookup_cancellable :: "sys \<Rightarrow> nat \<Rightarrow> gcancellable option" where
  "lookup_cancellable w c = (if c < length (cancellables w) then cancellables w ! c else None)"

definition g_cancellable_new :: "sys \<Rightarrow> nat \<times> sys" where
  "g_cancellable_new w =
     (length (cancellables w),
      w\<lparr>cancellables := cancellables w @ [Some \<lparr>ref_count = 1, cancelled = False\<rparr>]\<rparr>)"

definition g_cancellable_is_cancelled :: "sys \<Rightarrow> nat \<Rightarrow> bool" where
  "g_cancellable_is_cancelled w c =
     (case lookup_cancellable w c of None \<Rightarrow> False | Some obj \<Rightarrow> cancelled obj)"

definition g_cancellable_cancel :: "nat \<Rightarrow> sys \<Rightarrow> sys" where
  "g_cancellable_cancel c w =
     (case lookup_cancellable w c of
        None \<Rightarrow> w
      | Some obj \<Rightarrow> w\<lparr>cancellables := (cancellables w)[c := Some (obj\<lparr>cancelled := True\<rparr>)]\<rparr>)"

text \<open>
  \<open>g_object_unref\<close>: the last reference frees the object; a release of an object that
  is no longer alive is recorded in \<open>invalid_unref\<close>.
\<close>

definition g_object_unref :: "nat \<Rightarrow> sys \<Rightarrow> sys" where
  "g_object_unref c w =
     (case lookup_cancellable w c of
        None \<Rightarrow> w\<lparr>invalid_unref := True\<rparr>
      | Some obj \<Rightarrow>
          if ref_count obj \<le> 1
          then w\<lparr>cancellables := (cancellables w)[c := None]\<rparr>
          else w\<lparr>cancellables :=
                   (cancellables w)[c := Some (obj\<lparr>ref_count := ref_count obj - 1\<rparr>)]\<rparr>)"

text \<open>
  The collaborators and the constants of absent headers, as parameters.
  \<^item> The two change categories and the three WPS types are constants of headers;
    \<open>MULTIPLE_ROUTING_TABLE\<close> is the compile-time switch of the routing code and
    \<open>char_is_signed\<close> the signedness of plain \<open>char\<close> on the target.
  \<^item> \<open>remote_error\<close> is the \<open>GError\<close> message a synchronous call leaves (\<open>None\<close>: no
    error) and \<open>remote_properties\<close> the reply of \<open>GetProperties\<close>, an \<open>a{sv}\<close> bag as
    the pairs of key and unboxed value.
  \<^item> \<open>is_connected_peer\<close> is what \<open>is_connected_peer()\<close> returns,
    \<open>connected_p2p_service\<close> whether the manager exists and has a connected P2P
    service, and \<open>service_property_changed\<close> whether that update callback is set.
  \<^item> \<open>is_vlan\<close>, \<open>g_utf8_validate\<close>, \<open>get_current_system_locale\<close> and
    \<open>convert_ssid_to_utf8\<close> are the functions of these names; \<open>sscanf_d\<close> is the
    integer \<open>sscanf\<close> assigns for "%d", if it assigns one.
\<close>

record env =
  CONNMAN_SERVICE_CHANGE_CATEGORY_GETSTATUS :: guint
  CONNMAN_SERVICE_CHANGE_CATEGORY_FINDNETWORKS :: guint
  MULTIPLE_ROUTING_TABLE :: bool
  WPS_PBC :: gint
  WPS_KEYPAD :: gint
  WPS_DISPLAY :: gint
  char_is_signed :: bool
  remote_error :: "remote_call \<Rightarrow> string option"
  remote_properties :: "(string \<times> gvariant) list"
  is_connected_peer :: bool
  connected_p2p_service :: bool
  service_property_changed :: bool
  is_vlan :: "string \<Rightarrow> bool"
  sscanf_d :: "string \<Rightarrow> gint option"
  g_utf8_validate :: "string \<Rightarrow> nat \<Rightarrow> bool"
  get_current_system_locale :: string
  convert_ssid_to_utf8 :: "string \<Rightarrow> nat \<Rightarrow> string \<Rightarrow> string option"

section \<open>Remote command facade: connect\<close>

text \<open>
  A \<open>GAsyncResult\<close> as \<open>..._call_connect_finish\<close> reads it: the boolean it returns
  and the message of the error it sets, if any.
\<close>

type_synonym gasync_result = "bool \<times> string option"

definition invoke_connect_cb :: "cb_data \<Rightarrow> bool \<Rightarrow> sys \<Rightarrow> sys" where
  "invoke_connect_cb cbd ret w =
     (case cb cbd of None \<Rightarrow> w | Some f \<Rightarrow> emit (ConnectCb f ret (data cbd)) w)"

text \<open>
  The test \<open>NULL == service->cancellable || g_cancellable_is_cancelled(service->cancellable)\<close>.
\<close>

definition connect_cancelled :: "connman_service_t \<Rightarrow> sys \<Rightarrow> bool" where
  "connect_cancelled service w =
     (case cancellable service of None \<Rightarrow> True | Some c \<Rightarrow> g_cancellable_is_cancelled w c)"

text \<open>
  The cancelled completion, shared by both callbacks: the token, if there is one, is
  released and forgotten, and the callback gets FALSE.
\<close>

definition cancelled_completion ::
  "cb_data \<Rightarrow> connman_service_t \<Rightarrow> sys \<Rightarrow> connman_service_t \<times> sys" where
  "cancelled_completion cbd service w =
     (let (service1, w1) =
            (case cancellable service of
               None \<Rightarrow> (service, w)
             | Some c \<Rightarrow> (service\<lparr>cancellable := None\<rparr>, g_object_unref c w))
      in (service1, invoke_connect_cb cbd False w1))"

text \<open>
  The end of a completed connect: \<open>g_object_unref(service->cancellable)\<close> and the
  field set to NULL.  \<open>g_object_unref(NULL)\<close> is a failed precondition of GLib.
\<close>

definition release_cancellable :: "connman_service_t \<Rightarrow> sys \<Rightarrow> connman_service_t \<times> sys" where
  "release_cancellable service w =
     (service\<lparr>cancellable := None\<rparr>,
      case cancellable service of
        None \<Rightarrow> w\<lparr>invalid_unref := True\<rparr>
      | Some c \<Rightarrow> g_object_unref c w)"

text \<open>
  The value of \<open>ret\<close> after \<open>connman_interface_service_call_connect_finish\<close> and
  the error check: an error whose message contains "AlreadyConnected" turns it to TRUE.
\<close>

definition service_connect_ret :: "gasync_result \<Rightarrow> bool" where
  "service_connect_ret res =
     (case snd res of
        None \<Rightarrow> fst res
      | Some message \<Rightarrow>
          if g_strrstr message ''AlreadyConnected'' \<noteq> None then True else fst res)"

text \<open>\<open>connect_callback\<close>.  On the cancelled branch \<open>res\<close> is not looked at.\<close>

definition connect_callback ::
  "gasync_result \<Rightarrow> cb_data \<Rightarrow> connman_service_t \<Rightarrow> sys \<Rightarrow> connman_service_t \<times> sys" where
  "connect_callback res cbd service w =
     (if connect_cancelled service w then cancelled_completion cbd service w
      else release_cancellable service (invoke_connect_cb cbd (service_connect_ret res) w))"

definition connman_service_connect ::
  "connman_service_t option \<Rightarrow> nat option \<Rightarrow> nat \<Rightarrow> sys \<Rightarrow>
     bool \<times> connman_service_t option \<times> sys" where
  "connman_service_connect service cb_fn user_data w =
     (case service of
        None \<Rightarrow> (False, None, w)
      | Some s \<Rightarrow>
          (let s1 = s\<lparr>disconnecting := False\<rparr>;
               cbd = \<lparr>cb = cb_fn, data = user_data\<rparr>;
               (c, w1) = g_cancellable_new w;
               s2 = s1\<lparr>cancellable := Some c\<rparr>;
               w2 = emit (RemoteAsync CALL_CONNECT (cancellable s2) cbd) w1
           in (True, Some s2, w2)))"

text \<open>
  The same for a peer, where "Operation aborted" in the message counts as well.
\<close>

definition peer_connect_ret :: "gasync_result \<Rightarrow> bool" where
  "peer_connect_ret res =
     (case snd res of
        None \<Rightarrow> fst res
      | Some message \<Rightarrow>
          if g_strrstr message ''AlreadyConnected'' \<noteq> None \<or>
             g_strrstr message ''Operation aborted'' \<noteq> None then True
          else fst res)"

definition peer_connect_callback ::
  "gasync_result \<Rightarrow> cb_data \<Rightarrow> connman_service_t \<Rightarrow> sys \<Rightarrow> connman_service_t \<times> sys" where
  "peer_connect_callback res cbd service w =
     (if connect_cancelled service w then cancelled_completion cbd service w
      else release_cancellable service (invoke_connect_cb cbd (peer_connect_ret res) w))"

definition connman_peer_connect ::
  "connman_service_t option \<Rightarrow> nat option \<Rightarrow> nat \<Rightarrow> sys \<Rightarrow>
     bool \<times> connman_service_t option \<times> sys" where
  "connman_peer_connect service cb_fn user_data w =
     (case service of
        None \<Rightarrow> (False, None, w)
      | Some s \<Rightarrow>
          (let s1 = s\<lparr>disconnecting := False\<rparr>;
               cbd = \<lparr>cb = cb_fn, data = user_data\<rparr>;
               (c, w1) = g_cancellable_new w;
               s2 = s1\<lparr>cancellable := Some c\<rparr>;
               w2 = emit (RemoteAsync CALL_PEER_CONNECT (cancellable s2) cbd) w1
           in (True, Some s2, w2)))"

section \<open>Remote command facade: synchronous commands\<close>

text \<open>
  A synchronous remote call: the call is recorded and the error it leaves comes from
  the environment.
\<close>

definition call_sync :: "env \<Rightarrow> remote_call \<Rightarrow> sys \<Rightarrow> string option \<times> sys" where
  "call_sync e c w = (remote_error e c, emit (RemoteSync c) w)"

text \<open>The common tail of the commands: FALSE when the call left an error.\<close>

definition sync_result ::
  "env \<Rightarrow> remote_call \<Rightarrow> connman_service_t \<Rightarrow> sys \<Rightarrow>
     bool \<times> connman_service_t option \<times> sys" where
  "sync_result e c s w =
     (let (err, w1) = call_sync e c w
      in case err of Some message \<Rightarrow> (False, Some s, w1) | None \<Rightarrow> (True, Some s, w1))"

definition connman_service_disconnect ::
  "env \<Rightarrow> connman_service_t option \<Rightarrow> sys \<Rightarrow> bool \<times> connman_service_t option \<times> sys" where
  "connman_service_disconnect e service w =
     (case service of
        None \<Rightarrow> (False, None, w)
      | Some s \<Rightarrow> sync_result e CALL_DISCONNECT (s\<lparr>disconnecting := True\<rparr>) w)"

definition connman_peer_disconnect ::
  "env \<Rightarrow> connman_service_t option \<Rightarrow> sys \<Rightarrow> bool \<times> connman_service_t option \<times> sys" where
  "connman_peer_disconnect e service w =
     (case service of
        None \<Rightarrow> (False, None, w)
      | Some s \<Rightarrow> sync_result e CALL_PEER_DISCONNECT (s\<lparr>disconnecting := True\<rparr>) w)"

definition connman_service_remove ::
  "env \<Rightarrow> connman_service_t option \<Rightarrow> sys \<Rightarrow> bool \<times> connman_service_t option \<times> sys" where
  "connman_service_remove e service w =
     (case service of
        None \<Rightarrow> (False, None, w)
      | Some s \<Rightarrow> sync_result e CALL_REMOVE (s\<lparr>disconnecting := True\<rparr>) w)"

definition connman_service_reject_peer ::
  "env \<Rightarrow> connman_service_t option \<Rightarrow> sys \<Rightarrow> bool \<times> connman_service_t option \<times> sys" where
  "connman_service_reject_peer e service w =
     (case service of
        None \<Rightarrow> (False, None, w)
      | Some s \<Rightarrow> sync_result e CALL_REJECT_PEER s w)"

definition connman_service_set_default ::
  "env \<Rightarrow> connman_service_t option \<Rightarrow> sys \<Rightarrow> bool \<times> connman_service_t option \<times> sys" where
  "connman_service_set_default e service w =
     (case service of
        None \<Rightarrow> (False, None, w)
      | Some s \<Rightarrow> sync_result e CALL_SET_DEFAULT s w)"

text \<open>
  The \<open>GVariantBuilder\<close> of an \<open>a{sv}\<close>: a dictionary entry is the container of its key
  and its boxed value.
\<close>

definition sv_entry :: "string \<Rightarrow> gvariant \<Rightarrow> gvariant" where
  "sv_entry key v = GContainer [GString key, GBoxed v]"

definition add_string_entry :: "string \<Rightarrow> string option \<Rightarrow> gvariant list \<Rightarrow> gvariant list" where
  "add_string_entry key field b =
     (case field of None \<Rightarrow> b | Some s \<Rightarrow> b @ [sv_entry key (GString s)])"

definition add_strv_entry ::
  "string \<Rightarrow> string list option \<Rightarrow> gvariant list \<Rightarrow> gvariant list" where
  "add_strv_entry key field b =
     (case field of None \<Rightarrow> b | Some xs \<Rightarrow> b @ [sv_entry key (GStrv xs)])"

definition connman_service_set_ipv6 ::
  "env \<Rightarrow> connman_service_t option \<Rightarrow> ipv6info_t option \<Rightarrow> sys \<Rightarrow>
     bool \<times> connman_service_t option \<times> sys" where
  "connman_service_set_ipv6 e service ipv6_arg w =
     (case (service, ipv6_arg) of
        (Some s, Some i) \<Rightarrow>
          (let b1 = add_string_entry ''Method'' (ipv6_method i) [];
               b2 = add_string_entry ''Address'' (ipv6_address i) b1;
               b3 = (if 0 \<le> sint (ipv6_prefix_length i) \<and> sint (ipv6_prefix_length i) \<le> 128
                     then b2 @ [sv_entry ''PrefixLength'' (GByte (ucast (ipv6_prefix_length i)))]
                     else b2);
               b4 = add_string_entry ''Gateway'' (ipv6_gateway i) b3
           in sync_result e (CALL_SET_PROPERTY ''IPv6.Configuration'' (GBoxed (GContainer b4))) s w)
      | _ \<Rightarrow> (False, service, w))"

definition connman_service_set_ipv4 ::
  "env \<Rightarrow> connman_service_t option \<Rightarrow> ipv4info_t option \<Rightarrow> sys \<Rightarrow>
     bool \<times> connman_service_t option \<times> sys" where
  "connman_service_set_ipv4 e service ipv4_arg w =
     (case (service, ipv4_arg) of
        (Some s, Some i) \<Rightarrow>
          (let b1 = add_string_entry ''Method'' (ipv4_method i) [];
               b2 = add_string_entry ''Address'' (ipv4_address i) b1;
               b3 = add_string_entry ''Netmask'' (ipv4_netmask i) b2;
               b4 = add_string_entry ''Gateway'' (ipv4_gateway i) b3
           in sync_result e (CALL_SET_PROPERTY ''IPv4.Configuration'' (GBoxed (GContainer b4))) s w)
      | _ \<Rightarrow> (False, service, w))"

definition connman_service_set_proxy ::
  "env \<Rightarrow> connman_service_t option \<Rightarrow> proxyinfo_t option \<Rightarrow> sys \<Rightarrow>
     bool \<times> connman_service_t option \<times> sys" where
  "connman_service_set_proxy e service proxyinfo_arg w =
     (case (service, proxyinfo_arg) of
        (Some s, Some p) \<Rightarrow>
          (let b1 = add_string_entry ''Method'' (proxy_method p) [];
               b2 = add_string_entry ''URL'' (proxy_url p) b1;
               b3 = add_strv_entry ''Servers'' (proxy_servers p) b2;
               b4 = add_strv_entry ''Excludes'' (proxy_excludes p) b3
           in sync_result e (CALL_SET_PROPERTY ''Proxy.Configuration'' (GBoxed (GContainer b4))) s w)
      | _ \<Rightarrow> (False, service, w))"

definition connman_service_set_nameservers ::
  "env \<Rightarrow> connman_service_t option \<Rightarrow> string list option \<Rightarrow> sys \<Rightarrow>
     bool \<times> connman_service_t option \<times> sys" where
  "connman_service_set_nameservers e service dns_arg w =
     (case (service, dns_arg) of
        (Some s, Some xs) \<Rightarrow>
          sync_result e (CALL_SET_PROPERTY ''Nameservers.Configuration'' (GBoxed (GStrv xs))) s w
      | _ \<Rightarrow> (False, service, w))"

definition connman_service_set_autoconnect ::
  "env \<Rightarrow> connman_service_t option \<Rightarrow> bool \<Rightarrow> sys \<Rightarrow>
     bool \<times> connman_service_t option \<times> sys" where
  "connman_service_set_autoconnect e service val w =
     (case service of
        None \<Rightarrow> (False, None, w)
      | Some s \<Rightarrow> sync_result e (CALL_SET_PROPERTY ''AutoConnect'' (GBoxed (GBoolean val))) s w)"

definition connman_service_set_run_online_check ::
  "env \<Rightarrow> connman_service_t option \<Rightarrow> bool \<Rightarrow> sys \<Rightarrow>
     bool \<times> connman_service_t option \<times> sys" where
  "connman_service_set_run_online_check e service val w =
     (case service of
        None \<Rightarrow> (False, None, w)
      | Some s \<Rightarrow> sync_result e (CALL_SET_PROPERTY ''RunOnlineCheck'' (GBoxed (GBoolean val))) s w)"

text \<open>
  \<open>connman_service_set_passphrase\<close>.  The passphrase is a string: \<open>g_variant_new_string\<close>
  refuses NULL.
\<close>

definition connman_service_set_passphrase ::
  "env \<Rightarrow> connman_service_t option \<Rightarrow> string \<Rightarrow> sys \<Rightarrow>
     bool \<times> connman_service_t option \<times> sys" where
  "connman_service_set_passphrase e service passphrase w =
     (case service of
        None \<Rightarrow> (False, None, w)
      | Some s \<Rightarrow>
          sync_result e (CALL_SET_PROPERTY ''Passphrase'' (GBoxed (GString passphrase))) s w)"

text \<open>
  \<open>connman_service_fetch_properties\<close>: the property bag, or NULL for a NULL service
  and after an error.
\<close>

definition connman_service_fetch_properties ::
  "env \<Rightarrow> connman_service_t option \<Rightarrow> sys \<Rightarrow> (string \<times> gvariant) list option \<times> sys" where
  "connman_service_fetch_properties e service w =
     (case service of
        None \<Rightarrow> (None, w)
      | Some s \<Rightarrow>
          (let (err, w1) = call_sync e CALL_GET_PROPERTIES w
           in case err of
                Some message \<Rightarrow> (None, w1)
              | None \<Rightarrow> (Some (remote_properties e), w1)))"

section \<open>Snapshot decoding: IP and proxy information\<close>

text \<open>A \<open>for\<close> loop over the children of a container that stops at a failed assertion.\<close>

fun for_each :: "('a \<Rightarrow> 'b \<Rightarrow> 'b option) \<Rightarrow> 'a list \<Rightarrow> 'b \<Rightarrow> 'b option" where
  "for_each body [] acc = Some acc"
| "for_each body (x # xs) acc =
     (case body x acc of None \<Rightarrow> None | Some acc' \<Rightarrow> for_each body xs acc')"

text \<open>
  \<open>update_string_val_from_first_element\<close>: the new value of \<open>*outVal\<close>, the string in
  the boxed second child of a dictionary entry.
\<close>

definition update_string_val_from_first_element :: "gvariant \<Rightarrow> string option option" where
  "update_string_val_from_first_element inVal =
     (case g_variant_get_child_value inVal 1 of
        None \<Rightarrow> None
      | Some inValv \<Rightarrow> Some (g_variant_dup_string (g_variant_get_variant inValv)))"

text \<open>
  The first byte of the serialised data of a scalar value on a little-endian host, as
  \<open>g_variant_get_data\<close> exposes it; \<open>None\<close> where there is no byte to read or the
  serialised form is not modelled.
\<close>

definition first_data_byte :: "gvariant \<Rightarrow> guchar option" where
  "first_data_byte v =
     (case v of
        GByte b \<Rightarrow> Some b
      | GBoolean b \<Rightarrow> Some (if b then 1 else 0)
      | GUInt16 n \<Rightarrow> Some (ucast n)
      | GInt32 n \<Rightarrow> Some (ucast n)
      | GUInt32 n \<Rightarrow> Some (ucast n)
      | GString s \<Rightarrow> Some (case s of [] \<Rightarrow> 0 | c # cs \<Rightarrow> of_char c)
      | GByteString bs \<Rightarrow> (case bs of [] \<Rightarrow> None | b # bs' \<Rightarrow> Some b)
      | _ \<Rightarrow> None)"

text \<open>
  \<open>get_int_val_from_first_element\<close> reads that byte through a \<open>const char *\<close> and
  widens it to \<open>gint\<close>: sign-extended where \<open>char\<close> is signed.
\<close>

definition get_int_val_from_first_element :: "env \<Rightarrow> gvariant \<Rightarrow> gint option" where
  "get_int_val_from_first_element e inVal =
     (case g_variant_get_child_value inVal 1 of
        None \<Rightarrow> None
      | Some inValv \<Rightarrow>
          (case first_data_byte (g_variant_get_variant inValv) of
             None \<Rightarrow> None
           | Some b \<Rightarrow> Some (if char_is_signed e then scast b else ucast b)))"

definition entry_key :: "gvariant \<Rightarrow> string option option" where
  "entry_key entry =
     (case g_variant_get_child_value entry 0 of
        None \<Rightarrow> None
      | Some key_v \<Rightarrow> Some (g_variant_get_string key_v))"

definition ipinfo_ethernet_entry :: "gvariant \<Rightarrow> ipinfo_t \<Rightarrow> ipinfo_t option" where
  "ipinfo_ethernet_entry ethernet info =
     (case entry_key ethernet of
        None \<Rightarrow> None
      | Some ekey \<Rightarrow>
          if g_strcmp0 ekey (Some ''Interface'') = 0
          then map_option (\<lambda>x. info\<lparr>iface := x\<rparr>) (update_string_val_from_first_element ethernet)
          else Some info)"

definition ipinfo_ipv6_entry :: "env \<Rightarrow> gvariant \<Rightarrow> ipv6info_t \<Rightarrow> ipv6info_t option" where
  "ipinfo_ipv6_entry e entry info =
     (case entry_key entry of
        None \<Rightarrow> None
      | Some ikey \<Rightarrow>
          Option.bind
            (if g_strcmp0 ikey (Some ''Method'') = 0
             then map_option (\<lambda>x. info\<lparr>ipv6_method := x\<rparr>) (update_string_val_from_first_element entry)
             else Some info) (\<lambda>i1.
          Option.bind
            (if g_strcmp0 ikey (Some ''PrefixLength'') = 0
             then map_option (\<lambda>n. i1\<lparr>ipv6_prefix_length := n\<rparr>) (get_int_val_from_first_element e entry)
             else Some i1) (\<lambda>i2.
          Option.bind
            (if g_strcmp0 ikey (Some ''Address'') = 0
             then map_option (\<lambda>x. i2\<lparr>ipv6_address := x\<rparr>) (update_string_val_from_first_element entry)
             else Some i2) (\<lambda>i3.
            (if g_strcmp0 ikey (Some ''Gateway'') = 0
             then map_option (\<lambda>x. i3\<lparr>ipv6_gateway := x\<rparr>) (update_string_val_from_first_element entry)
             else Some i3)))))"

definition ipinfo_ipv4_entry :: "env \<Rightarrow> gvariant \<Rightarrow> ipv4info_t \<Rightarrow> ipv4info_t option" where
  "ipinfo_ipv4_entry e entry info =
     (case entry_key entry of
        None \<Rightarrow> None
      | Some ikey \<Rightarrow>
          Option.bind
            (if g_strcmp0 ikey (Some ''Method'') = 0
             then map_option (\<lambda>x. info\<lparr>ipv4_method := x\<rparr>) (update_string_val_from_first_element entry)
             else Some info) (\<lambda>i1.
          Option.bind
            (if g_strcmp0 ikey (Some ''PrefixLength'') = 0
             then map_option (\<lambda>n. i1\<lparr>ipv4_prefix_len := n\<rparr>) (get_int_val_from_first_element e entry)
             else Some i1) (\<lambda>i2.
          Option.bind
            (if g_strcmp0 ikey (Some ''Netmask'') = 0
             then map_option (\<lambda>x. i2\<lparr>ipv4_netmask := x\<rparr>) (update_string_val_from_first_element entry)
             else Some i2) (\<lambda>i3.
          Option.bind
            (if g_strcmp0 ikey (Some ''Address'') = 0
             then map_option (\<lambda>x. i3\<lparr>ipv4_address := x\<rparr>) (update_string_val_from_first_element entry)
             else Some i3) (\<lambda>i4.
            (if g_strcmp0 ikey (Some ''Gateway'') = 0
             then map_option (\<lambda>x. i4\<lparr>ipv4_gateway := x\<rparr>) (update_string_val_from_first_element entry)
             else Some i4))))))"

text \<open>One property of the snapshot, for \<open>connman_service_get_ipinfo\<close>.\<close>

definition ipinfo_property :: "env \<Rightarrow> string \<times> gvariant \<Rightarrow> ipinfo_t \<Rightarrow> ipinfo_t option" where
  "ipinfo_property e property info =
     (let key = Some (fst property); va = snd property in
      Option.bind
        (if g_strcmp0 key (Some ''Ethernet'') = 0
         then Option.bind (g_variant_children va) (\<lambda>xs. for_each ipinfo_ethernet_entry xs info)
         else Some info) (\<lambda>i1.
      Option.bind
        (if g_strcmp0 key (Some ''IPv6'') = 0
         then Option.bind (g_variant_children va) (\<lambda>xs.
                map_option (\<lambda>x. i1\<lparr>ipv6 := x\<rparr>) (for_each (ipinfo_ipv6_entry e) xs (ipv6 i1)))
         else Some i1) (\<lambda>i2.
      Option.bind
        (if g_strcmp0 key (Some ''IPv4'') = 0
         then Option.bind (g_variant_children va) (\<lambda>xs.
                map_option (\<lambda>x. i2\<lparr>ipv4 := x\<rparr>) (for_each (ipinfo_ipv4_entry e) xs (ipv4 i2)))
         else Some i2) (\<lambda>i3.
        (if g_strcmp0 key (Some ''Nameservers'') = 0
         then Some (i3\<lparr>dns := g_variant_dup_strv va\<rparr>)
         else Some i3)))))"

text \<open>
  \<open>connman_service_get_ipinfo\<close>, first past its NULL check.  The outer \<open>None\<close> is a
  failed GLib assertion while decoding a reply of unexpected shape.
\<close>

definition get_ipinfo_body ::
  "env \<Rightarrow> connman_service_t \<Rightarrow> sys \<Rightarrow> (bool \<times> connman_service_t \<times> sys) option" where
  "get_ipinfo_body e s w =
     (let (err, w1) = call_sync e CALL_GET_PROPERTIES w
      in case err of
           Some message \<Rightarrow> Some (False, s, w1)
         | None \<Rightarrow>
             map_option (\<lambda>info. (True, s\<lparr>ipinfo := info\<rparr>, w1))
               (for_each (ipinfo_property e) (remote_properties e) (ipinfo s)))"

definition connman_service_get_ipinfo ::
  "env \<Rightarrow> connman_service_t option \<Rightarrow> sys \<Rightarrow>
     (bool \<times> connman_service_t option \<times> sys) option" where
  "connman_service_get_ipinfo e service w =
     (case service of
        None \<Rightarrow> Some (False, None, w)
      | Some s \<Rightarrow> map_option (\<lambda>(r, s', w'). (r, Some s', w')) (get_ipinfo_body e s w))"

definition first_child_strv :: "gvariant \<Rightarrow> string list option option" where
  "first_child_strv entry =
     Option.bind (g_variant_get_child_value entry 1) (\<lambda>v.
     Option.bind (g_variant_get_child_value v 0) (\<lambda>va. Some (g_variant_dup_strv va)))"

definition proxyinfo_entry :: "gvariant \<Rightarrow> proxyinfo_t \<Rightarrow> proxyinfo_t option" where
  "proxyinfo_entry proxy info =
     (case entry_key proxy of
        None \<Rightarrow> None
      | Some pkey \<Rightarrow>
          Option.bind
            (if g_strcmp0 pkey (Some ''Method'') = 0
             then map_option (\<lambda>x. info\<lparr>proxy_method := x\<rparr>) (update_string_val_from_first_element proxy)
             else Some info) (\<lambda>i1.
          Option.bind
            (if g_strcmp0 pkey (Some ''URL'') = 0
             then map_option (\<lambda>x. i1\<lparr>proxy_url := x\<rparr>) (update_string_val_from_first_element proxy)
             else Some i1) (\<lambda>i2.
          Option.bind
            (if g_strcmp0 pkey (Some ''Servers'') = 0
             then map_option (\<lambda>x. i2\<lparr>proxy_servers := x\<rparr>) (first_child_strv proxy)
             else Some i2) (\<lambda>i3.
            (if g_strcmp0 pkey (Some ''Excludes'') = 0
             then map_option (\<lambda>x. i3\<lparr>proxy_excludes := x\<rparr>) (first_child_strv proxy)
             else Some i3)))))"

definition proxyinfo_property :: "string \<times> gvariant \<Rightarrow> proxyinfo_t \<Rightarrow> proxyinfo_t option" where
  "proxyinfo_property property info =
     (if g_strcmp0 (Some (fst property)) (Some ''Proxy'') = 0
      then Option.bind (g_variant_children (snd property)) (\<lambda>xs. for_each proxyinfo_entry xs info)
      else Some info)"

definition connman_service_get_proxyinfo ::
  "env \<Rightarrow> connman_service_t option \<Rightarrow> sys \<Rightarrow>
     (bool \<times> connman_service_t option \<times> sys) option" where
  "connman_service_get_proxyinfo e service w =
     (case service of
        None \<Rightarrow> Some (False, None, w)
      | Some s \<Rightarrow>
          (let (err, w1) = call_sync e CALL_GET_PROPERTIES w
           in case err of
                Some message \<Rightarrow> Some (False, Some s, w1)
              | None \<Rightarrow>
                  map_option (\<lambda>info. (True, Some (s\<lparr>proxyinfo := info\<rparr>), w1))
                    (for_each proxyinfo_property (remote_properties e) (proxyinfo s))))"

section \<open>State transition engine\<close>

text \<open>\<open>sprintf\<close> of an \<open>int\<close> with "%d": the decimal digits, after a minus sign if negative.\<close>

fun decimal_digits :: "nat \<Rightarrow> string" where
  "decimal_digits n =
     (if n < 10 then [char_of (48 + n)]
      else decimal_digits (n div 10) @ [char_of (48 + n mod 10)])"

declare decimal_digits.simps [simp del]

definition sprintf_d :: "int \<Rightarrow> string" where
  "sprintf_d n = (if n < 0 then CHR ''-'' # decimal_digits (nat (- n)) else decimal_digits (nat n))"

text \<open>
  The three command lines of \<open>connman_service_set_ip_rule\<close>, as the format strings
  build them.
\<close>

definition ip_verb :: "bool \<Rightarrow> string" where
  "ip_verb status = (if status then ''add'' else ''delete'')"

definition route_command :: "bool \<Rightarrow> gint \<Rightarrow> string \<Rightarrow> string" where
  "route_command status table_Id gateway =
     ''ip route '' @ ip_verb status @ '' table '' @ sprintf_d (sint table_Id) @
     '' default via '' @ gateway"

definition rule_from_command :: "bool \<Rightarrow> string \<Rightarrow> gint \<Rightarrow> gint \<Rightarrow> string" where
  "rule_from_command status addr prefix_len table_Id =
     ''ip rule '' @ ip_verb status @ '' from  '' @ addr @ ''/'' @ sprintf_d (sint prefix_len) @
     '' table '' @ sprintf_d (sint table_Id)"

definition rule_to_command :: "bool \<Rightarrow> string \<Rightarrow> gint \<Rightarrow> gint \<Rightarrow> string" where
  "rule_to_command status addr prefix_len table_Id =
     ''ip rule '' @ ip_verb status @ '' to '' @ addr @ ''/'' @ sprintf_d (sint prefix_len) @
     '' table '' @ sprintf_d (sint table_Id)"

text \<open>
  \<open>sprintf\<close> into a \<open>char[80]\<close> followed by \<open>system\<close>: a text of 80 characters or
  more does not fit with its terminating NUL and overruns the buffer, for which the
  model has no result.
\<close>

definition run_command :: "string \<Rightarrow> sys \<Rightarrow> sys option" where
  "run_command cmd w = (if length cmd < 80 then Some (emit (SystemCommand cmd) w) else None)"

text \<open>
  \<open>connman_service_set_ip_rule\<close>.  The table id is read by \<open>sscanf "%d"\<close> three
  characters into the interface name; a name shorter than that puts the pointer beyond
  the string, and a parsed number above \<open>INT_MAX - 10\<close> overflows the addition: for
  both the model has no result (\<open>None\<close>), as for a command that overruns its buffer.
\<close>

definition connman_service_set_ip_rule ::
  "env \<Rightarrow> connman_service_t \<Rightarrow> bool \<Rightarrow> sys \<Rightarrow> (connman_service_t \<times> sys) option" where
  "connman_service_set_ip_rule e service status w =
     (case (ipv4_address (ipv4 (ipinfo service)), ipv4_netmask (ipv4 (ipinfo service)),
            ipv4_gateway (ipv4 (ipinfo service)), interface_name service) of
        (Some addr, Some netmask, Some gateway, Some ifname) \<Rightarrow>
          if \<not> is_vlan e ifname
          then
            if length ifname < 3 then None
            else
              (case sscanf_d e (drop 3 ifname) of
                 None \<Rightarrow> Some (service, w)
               | Some parsed \<Rightarrow>
                   if 2147483647 - 10 < sint parsed then None
                   else
                     (let table_Id = parsed + 10;
                          prefix_len = ipv4_prefix_len (ipv4 (ipinfo service))
                      in Option.bind (run_command (route_command status table_Id gateway) w)
                           (\<lambda>w1.
                         Option.bind
                           (run_command (rule_from_command status addr prefix_len table_Id) w1)
                           (\<lambda>w2.
                         Option.bind
                           (run_command (rule_to_command status addr prefix_len table_Id) w2)
                           (\<lambda>w3. Some (service\<lparr>iprule_added := status\<rparr>, w3))))))
          else Some (service, w)
      | _ \<Rightarrow> Some (service, w))"

definition connman_service_create_ip_rule ::
  "env \<Rightarrow> connman_service_t \<Rightarrow> sys \<Rightarrow> (connman_service_t \<times> sys) option" where
  "connman_service_create_ip_rule e service w =
     (if \<not> iprule_added service \<and> g_strcmp0 (state service) (Some ''ready'') = 0
      then connman_service_set_ip_rule e service True w
      else Some (service, w))"

definition connman_service_delete_ip_rule ::
  "env \<Rightarrow> connman_service_t \<Rightarrow> sys \<Rightarrow> (connman_service_t \<times> sys) option" where
  "connman_service_delete_ip_rule e service w =
     (if iprule_added service then connman_service_set_ip_rule e service False w
      else Some (service, w))"

text \<open>The registered property-change callback, called with a property name and value.\<close>

definition invoke_property_change_fn ::
  "connman_service_t \<Rightarrow> string \<Rightarrow> gvariant \<Rightarrow> sys \<Rightarrow> sys" where
  "invoke_property_change_fn service property v w =
     (case handle_property_change_fn service of
        None \<Rightarrow> w
      | Some f \<Rightarrow> emit (PropertyChangeFn f property v) w)"

text \<open>
  The block under \<open>#ifdef MULTIPLE_ROUTING_TABLE\<close> in
  \<open>connman_service_advance_state\<close>.
\<close>

definition routing_on_state_change ::
  "env \<Rightarrow> string option \<Rightarrow> connman_service_t \<Rightarrow> sys \<Rightarrow> (connman_service_t \<times> sys) option" where
  "routing_on_state_change e new_state service w =
     (if \<not> MULTIPLE_ROUTING_TABLE e then Some (service, w)
      else if g_strcmp0 new_state (Some ''ready'') = 0 \<and>
              type service = CONNMAN_SERVICE_TYPE_ETHERNET
      then (case get_ipinfo_body e service w of
              None \<Rightarrow> None
            | Some (r, s1, w1) \<Rightarrow> connman_service_create_ip_rule e s1 w1)
      else if type service = CONNMAN_SERVICE_TYPE_ETHERNET
      then connman_service_delete_ip_rule e service w
      else Some (service, w))"

text \<open>The body of \<open>if (g_strcmp0(service->state, new_state) != 0)\<close>.\<close>

definition state_changed ::
  "env \<Rightarrow> gvariant \<Rightarrow> string option \<Rightarrow> connman_service_t \<Rightarrow> sys \<Rightarrow>
     (connman_service_t \<times> sys) option" where
  "state_changed e v new_state service w =
     (let s1 = service\<lparr>state := new_state\<rparr>;
          s2 = connman_service_set_changed s1
                 (CONNMAN_SERVICE_CHANGE_CATEGORY_GETSTATUS e OR
                  CONNMAN_SERVICE_CHANGE_CATEGORY_FINDNETWORKS e);
          w1 = invoke_property_change_fn s2 ''State'' v w
      in routing_on_state_change e new_state s2 w1)"

text \<open>
  The diagnostics switch at the end of \<open>connman_service_advance_state\<close>: the Wi-Fi
  technology is asked to update its properties and the process-wide flag flips.
\<close>

definition diagnostics :: "env \<Rightarrow> connman_service_t \<Rightarrow> sys \<Rightarrow> sys" where
  "diagnostics e service w =
     (if \<not> subscibed_for_diagnostiecs w \<and> type service = CONNMAN_SERVICE_TYPE_P2P \<and>
         g_strcmp0 (state service) (Some ''ready'') = 0 \<and> is_connected_peer e
      then (emit TechnologyUpdateProperties w)\<lparr>subscibed_for_diagnostiecs := True\<rparr>
      else if subscibed_for_diagnostiecs w \<and> type service = CONNMAN_SERVICE_TYPE_P2P \<and>
              g_strcmp0 (state service) (Some ''disconnect'') = 0 \<and> \<not> is_connected_peer e
      then (emit TechnologyUpdateProperties w)\<lparr>subscibed_for_diagnostiecs := False\<rparr>
      else w)"

text \<open>
  \<open>connman_service_advance_state\<close>.  The result is the service (NULL stays NULL) and
  the world; the outer \<open>None\<close> is a failed assertion inside the routing block.
\<close>

definition connman_service_advance_state ::
  "env \<Rightarrow> connman_service_t option \<Rightarrow> gvariant \<Rightarrow> sys \<Rightarrow>
     (connman_service_t option \<times> sys) option" where
  "connman_service_advance_state e service v w =
     (case service of
        None \<Rightarrow> Some (None, w)
      | Some s \<Rightarrow>
          (let new_state = g_variant_get_string v in
           if disconnecting s \<and>
              g_strcmp0 new_state (Some ''ready'') \<noteq> 0 \<and>
              g_strcmp0 new_state (Some ''online'') \<noteq> 0
           then Some (Some (s\<lparr>disconnecting := False\<rparr>), w)
           else
             (case (if g_strcmp0 (state s) new_state \<noteq> 0
                    then state_changed e v new_state s w
                    else Some (s, w)) of
                None \<Rightarrow> None
              | Some (s1, w1) \<Rightarrow> Some (Some s1, diagnostics e s1 w1))))"

definition connman_service_type_ethernet :: "connman_service_t option \<Rightarrow> bool" where
  "connman_service_type_ethernet service =
     (case service of None \<Rightarrow> False | Some s \<Rightarrow> type s = CONNMAN_SERVICE_TYPE_ETHERNET)"

definition connman_service_advance_online_state ::
  "env \<Rightarrow> connman_service_t option \<Rightarrow> gvariant \<Rightarrow> sys \<Rightarrow> connman_service_t option \<times> sys" where
  "connman_service_advance_online_state e service va w =
     (case service of
        None \<Rightarrow> (None, w)
      | Some s \<Rightarrow>
          (let old_online = online s;
               s1 = s\<lparr>online := g_variant_get_boolean va\<rparr>
           in if old_online \<noteq> online s1
              then
                (let s2 = connman_service_set_changed s1 (CONNMAN_SERVICE_CHANGE_CATEGORY_GETSTATUS e)
                 in if handle_property_change_fn s2 \<noteq> None
                    then (Some s2, invoke_property_change_fn s2 ''Online'' va w)
                    else if connman_service_type_ethernet (Some s2)
                    then (Some s2, emit SendStatusToSubscribers w)
                    else (Some s2, w))
              else (Some s1, w)))"

section \<open>Property decoder\<close>

text \<open>
  One element of the "BSS" array: a struct whose first member is the dictionary of the
  entry.  \<open>Id\<close> is copied into the 18-byte \<open>bssid\<close> buffer; a field that
  \<open>g_variant_lookup_value\<close> does not find with its type gets the empty string or 0.
\<close>

definition bss_info_of :: "gvariant \<Rightarrow> bssinfo_t option" where
  "bss_info_of temp =
     Option.bind (g_variant_get_child_value temp 0) (\<lambda>bss_entry.
       (let bss_v = g_variant_lookup_value bss_entry ''Id'' G_VARIANT_TYPE_STRING;
            signal_v = g_variant_lookup_value bss_entry ''Signal'' G_VARIANT_TYPE_INT32;
            frequency_v = g_variant_lookup_value bss_entry ''Frequency'' G_VARIANT_TYPE_INT32
        in Some \<lparr>bssid = (case bss_v of
                             None \<Rightarrow> []
                           | Some x \<Rightarrow>
                               (case g_variant_get_string x of
                                  None \<Rightarrow> []
                                | Some b \<Rightarrow> fst (g_strlcpy b 18))),
                  signal = (case signal_v of None \<Rightarrow> 0 | Some x \<Rightarrow> g_variant_get_int32 x),
                  frequency = (case frequency_v of
                                 None \<Rightarrow> 0
                               | Some x \<Rightarrow> g_variant_get_int32 x)\<rparr>))"

text \<open>
  The "BSS" branch, the same code in \<open>property_changed_cb\<close> and in
  \<open>connman_service_update_properties\<close>: the old array is freed, a new one is filled
  with one element per child of the value, and stored.
\<close>

definition append_bss :: "gvariant \<Rightarrow> bssinfo_t list \<Rightarrow> bssinfo_t list option" where
  "append_bss temp array = map_option (\<lambda>bss_info. array @ [bss_info]) (bss_info_of temp)"

definition update_bss :: "gvariant \<Rightarrow> connman_service_t \<Rightarrow> connman_service_t option" where
  "update_bss va service =
     Option.bind (g_variant_children va) (\<lambda>children.
       map_option (\<lambda>array. service\<lparr>bss := Some array\<rparr>) (for_each append_bss children []))"

definition update_strength :: "env \<Rightarrow> gvariant \<Rightarrow> connman_service_t \<Rightarrow> connman_service_t" where
  "update_strength e va service =
     (let strength_v = g_variant_get_byte va
      in if strength_v \<noteq> strength service
         then connman_service_set_changed (service\<lparr>strength := strength_v\<rparr>)
                (CONNMAN_SERVICE_CHANGE_CATEGORY_FINDNETWORKS e)
         else service)"

definition invoke_p2p_request_fn ::
  "connman_service_t \<Rightarrow> gint \<Rightarrow> string option \<Rightarrow> string option \<Rightarrow> string \<Rightarrow> sys \<Rightarrow> sys" where
  "invoke_p2p_request_fn service wpstype pin goaddr signal_name w =
     (case handle_p2p_request_fn service of
        None \<Rightarrow> w
      | Some f \<Rightarrow> emit (P2PRequestFn f wpstype pin goaddr signal_name) w)"

definition status_changed :: "env \<Rightarrow> connman_service_t \<Rightarrow> sys \<Rightarrow> connman_service_t \<times> sys" where
  "status_changed e service w =
     (connman_service_set_changed service (CONNMAN_SERVICE_CHANGE_CATEGORY_GETSTATUS e),
      emit SendStatusToSubscribers w)"

text \<open>
  \<open>property_changed_cb\<close>, the handler of the remote "property-changed" signal, with
  the signal's arguments \<open>property\<close> and \<open>v\<close>.
\<close>

definition property_changed_cb ::
  "env \<Rightarrow> string \<Rightarrow> gvariant \<Rightarrow> connman_service_t \<Rightarrow> sys \<Rightarrow>
     (connman_service_t \<times> sys) option" where
  "property_changed_cb e property v service w0 =
     (let va = g_variant_get_variant v;
          w = (if service_property_changed e
               then emit (ServicePropertyChanged (path service) property va) w0 else w0);
          key = Some property
      in
      if g_strcmp0 key (Some ''State'') = 0 then
        (case connman_service_advance_state e (Some service) va w of
           Some (Some s1, w1) \<Rightarrow> Some (s1, w1)
         | _ \<Rightarrow> None)
      else if g_strcmp0 key (Some ''Strength'') = 0 then Some (update_strength e va service, w)
      else if g_strcmp0 key (Some ''BSS'') = 0 then
        map_option (\<lambda>s1. (s1, w)) (update_bss va service)
      else if g_strcmp0 key (Some ''Online'') = 0 then
        (case connman_service_advance_online_state e (Some service) va w of
           (Some s1, w1) \<Rightarrow> Some (s1, w1)
         | _ \<Rightarrow> None)
      else if g_strcmp0 key (Some ''RunOnlineCheck'') = 0 then
        (if online_checking service \<noteq> g_variant_get_boolean va
         then Some (status_changed e (service\<lparr>online_checking := g_variant_get_boolean va\<rparr>) w)
         else Some (service, w))
      else if g_strcmp0 key (Some ''AutoConnect'') = 0 then
        Some (service\<lparr>auto_connect := g_variant_get_boolean va\<rparr>, w)
      else if g_strcmp0 key (Some ''Favorite'') = 0 then
        Some (service\<lparr>favorite := g_variant_get_boolean va\<rparr>, w)
      else if g_strcmp0 key (Some ''Error'') = 0 then
        Some (service\<lparr>error := g_variant_dup_string va\<rparr>, w)
      else if g_strcmp0 key (Some ''P2PGONegRequested'') = 0 then
        Some (service, invoke_p2p_request_fn service (g_variant_get_int32 va) None None
                         ''P2PGONegRequested'' w)
      else if g_strcmp0 key (Some ''P2PProvDiscRequestedPBC'') = 0 then
        Some (service, invoke_p2p_request_fn service (WPS_PBC e) None None
                         ''P2PProvDiscRequestedPBC'' w)
      else if g_strcmp0 key (Some ''P2PProvDiscRequestedEnterPin'') = 0 then
        Some (service, invoke_p2p_request_fn service (WPS_KEYPAD e) None None
                         ''P2PProvDiscRequestedEnterPin'' w)
      else if g_strcmp0 key (Some ''P2PProvDiscRequestedDisplayPin'') = 0 then
        Some (service, invoke_p2p_request_fn service (WPS_DISPLAY e) (g_variant_get_string va) None
                         ''P2PProvDiscRequestedDisplayPin'' w)
      else if g_strcmp0 key (Some ''P2PInvitationReceived'') = 0 then
        Some (service, invoke_p2p_request_fn service 0 None (g_variant_get_string va)
                         ''P2PInvitationReceived'' w)
      else if g_strcmp0 key (Some ''P2PPersistentReceived'') = 0 then
        Some (service, invoke_p2p_request_fn service 0 None (g_variant_get_string va)
                         ''P2PPersistentReceived'' w)
      else if g_strcmp0 key (Some ''PeerAdded'') = 0 then
        (if connected_p2p_service e
         then Some (service, invoke_p2p_request_fn service 0 None None ''PeerAdded'' w)
         else Some (service, w))
      else if g_strcmp0 key (Some ''IPv6'') = 0 then Some (status_changed e service w)
      else if g_strcmp0 key (Some ''Proxy'') = 0 then Some (status_changed e service w)
      else if g_strcmp0 key (Some ''IPv4'') = 0 then
        (if type service = CONNMAN_SERVICE_TYPE_P2P \<and> group_owner (peer service)
         then Some (service, invoke_property_change_fn service ''IPv4'' va w)
         else Some (service, w))
      else if g_strcmp0 key (Some ''Nameservers'') = 0 then Some (status_changed e service w)
      else Some (service, w))"

definition connman_service_register_property_changed_cb ::
  "connman_service_t \<Rightarrow> nat option \<Rightarrow> connman_service_t" where
  "connman_service_register_property_changed_cb service func =
     (case func of
        None \<Rightarrow> service
      | Some f \<Rightarrow> service\<lparr>handle_property_change_fn := Some f\<rparr>)"

definition connman_service_register_p2p_requests_cb ::
  "connman_service_t \<Rightarrow> nat option \<Rightarrow> connman_service_t" where
  "connman_service_register_p2p_requests_cb service func =
     (case func of
        None \<Rightarrow> service
      | Some f \<Rightarrow> service\<lparr>handle_p2p_request_fn := Some f\<rparr>)"

text \<open>
  \<open>connman_service_update_display_name\<close>, on a service that is not NULL: a valid
  UTF-8 SSID is copied, any other is converted with the system locale.
\<close>

definition connman_service_update_display_name ::
  "env \<Rightarrow> connman_service_t \<Rightarrow> connman_service_t" where
  "connman_service_update_display_name e service =
     (case ssid service of
        None \<Rightarrow> service
      | Some bytes \<Rightarrow>
          if g_utf8_validate e bytes (ssid_len service)
          then service\<lparr>display_name := Some bytes\<rparr>
          else service\<lparr>display_name :=
                 convert_ssid_to_utf8 e bytes (ssid_len service) (get_current_system_locale e)\<rparr>)"

definition connman_service_update_type ::
  "connman_service_t \<Rightarrow> string option \<Rightarrow> connman_service_t" where
  "connman_service_update_type service v =
     (if g_strcmp0 v (Some ''wifi'') = 0 then service\<lparr>type := CONNMAN_SERVICE_TYPE_WIFI\<rparr>
      else if g_strcmp0 v (Some ''ethernet'') = 0
      then service\<lparr>type := CONNMAN_SERVICE_TYPE_ETHERNET\<rparr>
      else if g_strcmp0 v (Some ''Peer'') = 0 \<or> g_strcmp0 v (Some ''peer'') = 0
      then service\<lparr>type := CONNMAN_SERVICE_TYPE_P2P\<rparr>
      else service)"

text \<open>
  The bytes of a byte-array value as \<open>g_variant_get_data\<close> and \<open>g_variant_get_size\<close>
  give them; the serialised form of other values is not modelled.
\<close>

definition variant_bytes :: "gvariant \<Rightarrow> guchar list option" where
  "variant_bytes v = (case v of GByteString bs \<Rightarrow> Some bs | _ \<Rightarrow> None)"

text \<open>
  The "WiFi.SSID" branch.  \<open>g_strlcpy\<close> into the buffer of \<open>ssid_len + 1\<close> bytes stops
  at the first NUL byte of the data, and its result, the length of the data as a C
  string, is assigned to \<open>i\<close>, the counter of the loop over the properties.  Data
  without a NUL byte makes \<open>g_strlcpy\<close> and \<open>strlen\<close> read past its end: no result.
  The result is the new value of \<open>i\<close> and the service.
\<close>

definition update_ssid ::
  "env \<Rightarrow> guchar list \<Rightarrow> connman_service_t \<Rightarrow> (nat \<times> connman_service_t) option" where
  "update_ssid e bytes service =
     (if 0 \<in> set bytes
      then
        (let str = map (\<lambda>b. char_of (unat b)) (takeWhile (\<lambda>b. b \<noteq> 0) bytes);
             copied = g_strlcpy str (length bytes + 1)
         in Some (snd copied,
                  connman_service_update_display_name e
                    (service\<lparr>ssid_len := length bytes, ssid := Some (fst copied)\<rparr>)))
      else None)"

definition word_of_gboolean :: "bool \<Rightarrow> guint" where
  "word_of_gboolean b = (if b then 1 else 0)"

text \<open>One entry of the "P2P" dictionary.\<close>

definition p2p_property :: "gvariant \<Rightarrow> peer \<Rightarrow> peer option" where
  "p2p_property entry p =
     Option.bind (g_variant_get_child_value entry 0) (\<lambda>p2p_key_v.
     Option.bind (g_variant_get_child_value entry 1) (\<lambda>p2p_val_v.
       (let p2p_val = g_variant_get_variant p2p_val_v;
            p2p_key = g_variant_get_string p2p_key_v
        in
        if g_strcmp0 p2p_key (Some ''DeviceAddress'') = 0
        then Some (p\<lparr>peer_address := g_variant_dup_string p2p_val\<rparr>)
        else if g_strcmp0 p2p_key (Some ''DeviceType'') = 0
        then Some (p\<lparr>pri_dev_type := g_variant_dup_string p2p_val\<rparr>)
        else if g_strcmp0 p2p_key (Some ''GroupOwner'') = 0
        then Some (p\<lparr>group_owner := g_variant_get_boolean p2p_val\<rparr>)
        else if g_strcmp0 p2p_key (Some ''ConfigMethod'') = 0
        then Some (p\<lparr>config_method := g_variant_get_uint16 p2p_val\<rparr>)
        else if g_strcmp0 p2p_key (Some ''WFDDevType'') = 0
        then Some (p\<lparr>wfd_devtype := ucast (g_variant_get_uint16 p2p_val), wfd_enabled := True\<rparr>)
        else if g_strcmp0 p2p_key (Some ''WFDSessionAvail'') = 0
        then Some (p\<lparr>wfd_sessionavail := word_of_gboolean (g_variant_get_boolean p2p_val)\<rparr>)
        else if g_strcmp0 p2p_key (Some ''WFDCPSupport'') = 0
        then Some (p\<lparr>wfd_cpsupport := word_of_gboolean (g_variant_get_boolean p2p_val)\<rparr>)
        else if g_strcmp0 p2p_key (Some ''WFDRtspPort'') = 0
        then Some (p\<lparr>wfd_rtspport := g_variant_get_uint32 p2p_val\<rparr>)
        else Some p)))"

text \<open>
  One entry of the array below "Services": the bytes of "WiFiDisplayIEs" go to the
  capability parser, with their count passed as an \<open>int\<close>.
\<close>

definition service_property :: "gvariant \<Rightarrow> peer \<Rightarrow> peer option" where
  "service_property entry p =
     Option.bind (g_variant_get_child_value entry 0) (\<lambda>p2p_service_key_v.
     Option.bind (g_variant_get_child_value entry 1) (\<lambda>p2p_service_val_v.
       if g_strcmp0 (g_variant_get_string p2p_service_key_v) (Some ''WiFiDisplayIEs'') = 0
       then Option.bind (variant_bytes (g_variant_get_variant p2p_service_val_v)) (\<lambda>bytes.
              p2p_parse_wfd_dev_info bytes (sint (word_of_nat (length bytes) :: 32 word)) p)
       else Some p))"

definition ethernet_property ::
  "env \<Rightarrow> gvariant \<Rightarrow> connman_service_t \<times> sys \<Rightarrow> (connman_service_t \<times> sys) option" where
  "ethernet_property e ethernet sw =
     (case entry_key ethernet of
        None \<Rightarrow> None
      | Some ekey \<Rightarrow>
          if g_strcmp0 ekey (Some ''Interface'') = 0
          then Option.bind (update_string_val_from_first_element ethernet) (\<lambda>x.
                 if MULTIPLE_ROUTING_TABLE e
                 then connman_service_create_ip_rule e ((fst sw)\<lparr>interface_name := x\<rparr>) (snd sw)
                 else Some ((fst sw)\<lparr>interface_name := x\<rparr>, snd sw))
          else if g_strcmp0 ekey (Some ''Address'') = 0
          then map_option (\<lambda>x. ((fst sw)\<lparr>mac_address := x\<rparr>, snd sw))
                 (update_string_val_from_first_element ethernet)
          else Some sw)"

text \<open>
  The body of the loop of \<open>connman_service_update_properties\<close> for one property, given
  as its key and its unboxed value, with the loop counter \<open>i\<close>.  The result carries
  the value of \<open>i\<close> at the end of the body: every branch leaves it alone (the "BSS"
  branch has an \<open>i\<close> of its own) except "WiFi.SSID", which assigns to it.
\<close>

definition counter_kept :: "nat \<Rightarrow> 'a option \<Rightarrow> (nat \<times> 'a) option" where
  "counter_kept i r = map_option (\<lambda>x. (i, x)) r"

definition update_property ::
  "env \<Rightarrow> string \<times> gvariant \<Rightarrow> nat \<Rightarrow> connman_service_t \<times> sys \<Rightarrow>
     (nat \<times> connman_service_t \<times> sys) option" where
  "update_property e property i sw =
     (let key = Some (fst property); val = snd property; service = fst sw; w = snd sw
      in
      if g_strcmp0 key (Some ''Name'') = 0 then
        (let name_v = g_variant_dup_string val;
             s1 = (if g_strcmp0 name_v (name service) \<noteq> 0
                   then connman_service_set_changed service
                          (CONNMAN_SERVICE_CHANGE_CATEGORY_GETSTATUS e OR
                           CONNMAN_SERVICE_CHANGE_CATEGORY_FINDNETWORKS e)
                   else service)
         in counter_kept i (Some (s1\<lparr>name := name_v\<rparr>, w)))
      else if g_strcmp0 key (Some ''WiFi.SSID'') = 0 \<and> G_VARIANT_TYPE_BYTESTRING val then
        Option.bind (variant_bytes val) (\<lambda>bytes.
          map_option (\<lambda>r. (fst r, snd r, w)) (update_ssid e bytes service))
      else if g_strcmp0 key (Some ''Type'') = 0 then
        counter_kept i (Some (connman_service_update_type service (g_variant_get_string val), w))
      else if g_strcmp0 key (Some ''State'') = 0 then
        counter_kept i
          (case connman_service_advance_state e (Some service) val w of
             Some (Some s1, w1) \<Rightarrow>
               Some (if g_strcmp0 (state s1) (Some ''association'') = 0
                     then s1\<lparr>hidden := True\<rparr> else s1, w1)
           | _ \<Rightarrow> None)
      else if g_strcmp0 key (Some ''Strength'') = 0 then
        counter_kept i (Some (update_strength e val service, w))
      else if g_strcmp0 key (Some ''Security'') = 0 then
        counter_kept i (Some (service\<lparr>security := g_variant_dup_strv val\<rparr>, w))
      else if g_strcmp0 key (Some ''AutoConnect'') = 0 then
        counter_kept i (Some (service\<lparr>auto_connect := g_variant_get_boolean val\<rparr>, w))
      else if g_strcmp0 key (Some ''Immutable'') = 0 then
        counter_kept i (Some (service\<lparr>immutable := g_variant_get_boolean val\<rparr>, w))
      else if g_strcmp0 key (Some ''Favorite'') = 0 then
        counter_kept i (Some (service\<lparr>favorite := g_variant_get_boolean val\<rparr>, w))
      else if g_strcmp0 key (Some ''Online'') = 0 then
        counter_kept i
          (case connman_service_advance_online_state e (Some service) val w of
             (Some s1, w1) \<Rightarrow> Some (s1, w1)
           | _ \<Rightarrow> None)
      else if g_strcmp0 key (Some ''RunOnlineCheck'') = 0 then
        counter_kept i (Some (service\<lparr>online_checking := g_variant_get_boolean val\<rparr>, w))
      else if g_strcmp0 key (Some ''P2P'') = 0 then
        counter_kept i
          (Option.bind (g_variant_children val) (\<lambda>children.
             map_option (\<lambda>p. (service\<lparr>peer := p\<rparr>, w))
               (for_each p2p_property children ((peer service)\<lparr>wfd_enabled := False\<rparr>))))
      else if g_strcmp0 key (Some ''Services'') = 0 then
        counter_kept i
          (Option.bind (g_variant_get_child_value val 0) (\<lambda>service_struct.
           Option.bind (g_variant_get_child_value service_struct 0) (\<lambda>service_array.
           Option.bind (g_variant_children service_array) (\<lambda>children.
             map_option (\<lambda>p. (service\<lparr>peer := p\<rparr>, w))
               (for_each service_property children (peer service))))))
      else if g_strcmp0 key (Some ''Address'') = 0 then
        counter_kept i (Some (service\<lparr>address := g_variant_dup_string val\<rparr>, w))
      else if g_strcmp0 key (Some ''Ethernet'') = 0 then
        counter_kept i
          (Option.bind (g_variant_children val) (\<lambda>children.
             for_each (ethernet_property e) children (service, w)))
      else if g_strcmp0 key (Some ''BSS'') = 0 then
        counter_kept i (map_option (\<lambda>s1. (s1, w)) (update_bss val service))
      else counter_kept i (Some (service, w)))"

text \<open>
  The loop \<open>for (i = 0; i < g_variant_n_children(properties); i++)\<close>, from a value
  of \<open>i\<close> on: the body runs on property \<open>i\<close>, and the next round starts one after
  the value the body leaves in \<open>i\<close>.  After a "WiFi.SSID" property that is the length
  of the SSID plus one, so the loop may jump ahead, jump back, or go round for ever;
  \<open>None\<close> is a run without a result (it never ends, or a body has none).
\<close>

partial_function (option) update_properties_loop ::
  "env \<Rightarrow> (string \<times> gvariant) list \<Rightarrow> nat \<Rightarrow> connman_service_t \<times> sys \<Rightarrow>
     (connman_service_t \<times> sys) option" where
  "update_properties_loop e properties i sw =
     (if i < length properties
      then (case update_property e (properties ! i) i sw of
              None \<Rightarrow> None
            | Some r \<Rightarrow> update_properties_loop e properties (Suc (fst r)) (snd r))
      else Some sw)"

text \<open>
  \<open>connman_service_update_properties\<close>: nothing happens for a NULL service or a NULL
  bag; otherwise the loop runs from \<open>i = 0\<close>.
\<close>

definition connman_service_update_properties ::
  "env \<Rightarrow> connman_service_t option \<Rightarrow> (string \<times> gvariant) list option \<Rightarrow> sys \<Rightarrow>
     (connman_service_t option \<times> sys) option" where
  "connman_service_update_properties e service properties w =
     (case (service, properties) of
        (Some s, Some props) \<Rightarrow>
          map_option (\<lambda>(s1, w1). (Some s1, w1)) (update_properties_loop e props 0 (s, w))
      | _ \<Rightarrow> Some (service, w))"

section \<open>Destruction\<close>

text \<open>
  \<open>connman_service_free\<close>, for a service made by \<open>connman_service_new\<close> (its signal
  handler is connected): with a connect pending the token is cancelled and the service
  stays; otherwise the service is released (\<open>None\<close> as the service of the result).
\<close>

definition connman_service_free ::
  "env \<Rightarrow> connman_service_t \<Rightarrow> sys \<Rightarrow> (connman_service_t option \<times> sys) option" where
  "connman_service_free e service w =
     (case cancellable service of
        Some c \<Rightarrow> Some (Some service, g_cancellable_cancel c w)
      | None \<Rightarrow>
          map_option (\<lambda>(s1, w1). (None, emit SignalHandlerDisconnect w1))
            (if MULTIPLE_ROUTING_TABLE e then connman_service_delete_ip_rule e service w
             else Some (service, w)))"

section \<open>Reference points for the theorems\<close>

text \<open>The world at process start, and an environment with every constant fixed.\<close>

definition sys_zero :: sys where
  "sys_zero = \<lparr>cancellables = [], invalid_unref = False,
     subscibed_for_diagnostiecs = False, trace = []\<rparr>"

definition sample_env :: env where
  "sample_env = \<lparr>CONNMAN_SERVICE_CHANGE_CATEGORY_GETSTATUS = 1,
     CONNMAN_SERVICE_CHANGE_CATEGORY_FINDNETWORKS = 2,
     MULTIPLE_ROUTING_TABLE = False, WPS_PBC = 1, WPS_KEYPAD = 2, WPS_DISPLAY = 3,
     char_is_signed = False, remote_error = (\<lambda>c. None), remote_properties = [],
     is_connected_peer = True, connected_p2p_service = False,
     service_property_changed = False, is_vlan = (\<lambda>n. False), sscanf_d = (\<lambda>s. None),
     g_utf8_validate = (\<lambda>s n. n \<le> length s), get_current_system_locale = ''en_US'',
     convert_ssid_to_utf8 = (\<lambda>s n l. Some s)\<rparr>"



text \<open>
  Two connects in a row on one service, with the callback data of the first and of the
  second, and a completion arriving afterwards.
\<close>

definition after_two_connects ::
  "connman_service_t \<Rightarrow> cb_data \<Rightarrow> cb_data \<Rightarrow> sys \<Rightarrow> connman_service_t \<times> sys" where
  "after_two_connects s c1 c2 w =
     (case connman_service_connect (Some s) (cb c1) (data c1) w of
        (r1, None, w1) \<Rightarrow> (s, w1)
      | (r1, Some s1, w1) \<Rightarrow>
          (case connman_service_connect (Some s1) (cb c2) (data c2) w1 of
             (r2, None, w2) \<Rightarrow> (s1, w2)
           | (r2, Some s2, w2) \<Rightarrow> (s2, w2)))"

definition completes ::
  "gasync_result \<Rightarrow> cb_data \<Rightarrow> connman_service_t \<times> sys \<Rightarrow> connman_service_t \<times> sys" where
  "completes res cbd sw = connect_callback res cbd (fst sw) (snd sw)"

text \<open>
  The decoding of a BSS bag in the words of the specification: every entry gives one
  element; \<open>Id\<close> is a string cut to 17 characters, \<open>Signal\<close> and \<open>Frequency\<close> are
  32-bit integers, and a field that is missing (or of another type) is the empty
  string or 0.  An entry is the list of its keys and values, and \<open>bss_bag\<close> is the
  \<open>GVariant\<close> of such a list of entries: an array of structs holding an \<open>a{sv}\<close>.
\<close>

definition spec_bss_entry :: "(string \<times> gvariant) list \<Rightarrow> bssinfo_t" where
  "spec_bss_entry kvs =
     \<lparr>bssid = (case map_of kvs ''Id'' of Some (GString b) \<Rightarrow> take 17 b | _ \<Rightarrow> []),
      signal = (case map_of kvs ''Signal'' of Some (GInt32 n) \<Rightarrow> n | _ \<Rightarrow> 0),
      frequency = (case map_of kvs ''Frequency'' of Some (GInt32 n) \<Rightarrow> n | _ \<Rightarrow> 0)\<rparr>"

definition bss_struct :: "(string \<times> gvariant) list \<Rightarrow> gvariant" where
  "bss_struct kvs = GContainer [GContainer (map (\<lambda>kv. sv_entry (fst kv) (snd kv)) kvs)]"

definition bss_bag :: "(string \<times> gvariant) list list \<Rightarrow> gvariant" where
  "bss_bag entries = GContainer (map bss_struct entries)"

section \<open>Properties of the primitives\<close>

lemma strcmp_eq_0_iff: "strcmp a b = 0 \<longleftrightarrow> a = b"
  by (induction a b rule: strcmp.induct) auto

lemma g_strcmp0_eq_0_iff: "g_strcmp0 a b = 0 \<longleftrightarrow> a = b"
  by (cases a; cases b) (simp_all add: strcmp_eq_0_iff)

section \<open>Change-tracking notifier: the bitset laws\<close>

text \<open>
  Claim C9, as amended.  \<open>connman_service_set_changed\<close> is a bitwise OR into the
  mask, \<open>connman_service_unset_changed\<close> a bitwise AND with the complement, and
  \<open>connman_service_is_changed\<close> is true exactly when the bitwise AND is non-zero.
  Setting a non-empty category set \<open>c\<close> makes the test on \<open>c\<close> true; unsetting it
  again makes the test false, for every mask and every \<open>c\<close>.
\<close>

theorem change_mask_bitset:
  "change_mask (connman_service_set_changed s c) = change_mask s OR c \<and>
   change_mask (connman_service_unset_changed s c) = change_mask s AND NOT c \<and>
   gboolean_true (connman_service_is_changed s c) = (change_mask s AND c \<noteq> 0) \<and>
   (c \<noteq> 0 \<longrightarrow>
      gboolean_true (connman_service_is_changed (connman_service_set_changed s c) c)) \<and>
   \<not> gboolean_true (connman_service_is_changed
        (connman_service_unset_changed (connman_service_set_changed s c) c) c)"
proof -
  have absorb: "((change_mask s OR c) AND NOT c) AND c = 0"
    by (simp add: bit_eq_iff bit_and_iff bit_or_iff bit_not_iff)
  show ?thesis
    by (simp add: gboolean_true_def connman_service_is_changed_def
        connman_service_set_changed_def connman_service_unset_changed_def absorb)
qed

theorem change_mask_bitset_witness:
  "(1 :: guint) \<noteq> 0 \<and>
   gboolean_true (connman_service_is_changed (connman_service_set_changed service_zero 1) 1) \<and>
   \<not> gboolean_true (connman_service_is_changed
        (connman_service_unset_changed (connman_service_set_changed service_zero 1) 1) 1)"
  using change_mask_bitset [of service_zero 1] by simp

text \<open>
  The claim as stated quantifies over every category set: for the empty one the test
  after setting is false.
\<close>

theorem change_mask_empty_category_counterexample:
  "\<not> gboolean_true (connman_service_is_changed (connman_service_set_changed service_zero 0) 0)"
  by (simp add: gboolean_true_def connman_service_is_changed_def connman_service_set_changed_def)

section \<open>State-string vocabulary: totality\<close>

text \<open>
  Claim C7.  The state of a service, read through \<open>connman_service_get_state\<close>, is one
  of the seven enumerated values whatever string (or NULL) is stored: each of the
  seven wire-level strings maps to its own value, and every other input maps to Idle.
\<close>

theorem get_state_seven_values:
  "connman_service_get_state st \<in>
     {CONNMAN_SERVICE_STATE_IDLE, CONNMAN_SERVICE_STATE_ASSOCIATION,
      CONNMAN_SERVICE_STATE_CONFIGURATION, CONNMAN_SERVICE_STATE_READY,
      CONNMAN_SERVICE_STATE_ONLINE, CONNMAN_SERVICE_STATE_DISCONNECT,
      CONNMAN_SERVICE_STATE_FAILURE} \<and>
   connman_service_get_state (Some ''idle'') = CONNMAN_SERVICE_STATE_IDLE \<and>
   connman_service_get_state (Some ''association'') = CONNMAN_SERVICE_STATE_ASSOCIATION \<and>
   connman_service_get_state (Some ''configuration'') = CONNMAN_SERVICE_STATE_CONFIGURATION \<and>
   connman_service_get_state (Some ''ready'') = CONNMAN_SERVICE_STATE_READY \<and>
   connman_service_get_state (Some ''online'') = CONNMAN_SERVICE_STATE_ONLINE \<and>
   connman_service_get_state (Some ''disconnect'') = CONNMAN_SERVICE_STATE_DISCONNECT \<and>
   connman_service_get_state (Some ''failure'') = CONNMAN_SERVICE_STATE_FAILURE \<and>
   (st \<notin> {Some ''idle'', Some ''association'', Some ''configuration'', Some ''ready'',
            Some ''online'', Some ''disconnect'', Some ''failure''} \<longrightarrow>
      connman_service_get_state st = CONNMAN_SERVICE_STATE_IDLE)"
proof -
  have chain: "connman_service_get_state st =
      (if st = Some ''association'' then CONNMAN_SERVICE_STATE_ASSOCIATION
       else if st = Some ''configuration'' then CONNMAN_SERVICE_STATE_CONFIGURATION
       else if st = Some ''ready'' then CONNMAN_SERVICE_STATE_READY
       else if st = Some ''online'' then CONNMAN_SERVICE_STATE_ONLINE
       else if st = Some ''disconnect'' then CONNMAN_SERVICE_STATE_DISCONNECT
       else if st = Some ''failure'' then CONNMAN_SERVICE_STATE_FAILURE
       else CONNMAN_SERVICE_STATE_IDLE)" for st
    by (simp add: connman_service_get_state_def g_strcmp0_eq_0_iff)
  have total: "connman_service_get_state st \<in>
     {CONNMAN_SERVICE_STATE_IDLE, CONNMAN_SERVICE_STATE_ASSOCIATION,
      CONNMAN_SERVICE_STATE_CONFIGURATION, CONNMAN_SERVICE_STATE_READY,
      CONNMAN_SERVICE_STATE_ONLINE, CONNMAN_SERVICE_STATE_DISCONNECT,
      CONNMAN_SERVICE_STATE_FAILURE}"
    by (cases "connman_service_get_state st") simp_all
  have other: "st \<notin> {Some ''idle'', Some ''association'', Some ''configuration'', Some ''ready'',
            Some ''online'', Some ''disconnect'', Some ''failure''} \<longrightarrow>
      connman_service_get_state st = CONNMAN_SERVICE_STATE_IDLE"
    by (simp add: chain)
  from total other show ?thesis
    by (simp add: chain)
qed

theorem get_state_seven_values_witness:
  "Some ''roaming'' \<notin> {Some ''idle'', Some ''association'', Some ''configuration'',
      Some ''ready'', Some ''online'', Some ''disconnect'', Some ''failure''} \<and>
   connman_service_get_state (Some ''roaming'') = CONNMAN_SERVICE_STATE_IDLE"
  using get_state_seven_values [of "Some ''roaming''"] by simp

section \<open>Peer capability parser: the length-field test\<close>

text \<open>
  What the parser does on a buffer that holds the nine bytes it asks for.
\<close>

lemma p2p_parse_wfd_dev_info_short: "len < 9 \<Longrightarrow> p2p_parse_wfd_dev_info bs len p = Some p"
  by (simp add: p2p_parse_wfd_dev_info_def)

lemma ucast_byte_eq_iff: "(ucast (b :: 8 word) :: 32 word) = ucast c \<longleftrightarrow> b = c"
proof
  assume "(ucast b :: 32 word) = ucast c"
  then have "uint (ucast b :: 32 word) = uint (ucast c :: 32 word)"
    by simp
  then have "uint b = uint c"
    by (simp add: uint_up_ucast is_up)
  then show "b = c"
    by (rule word_uint_eqI)
qed simp

lemma p2p_parse_wfd_dev_info_behaviour:
  assumes "9 \<le> len" and "9 \<le> length bs"
  shows "p2p_parse_wfd_dev_info bs len p =
     Some (if bs ! 0 \<noteq> 0x00 \<or> (bs ! 1 \<noteq> 0x00 \<and> bs ! 2 \<noteq> 0x06) then p
           else p\<lparr>wfd_enabled := True,
                   wfd_devtype := ucast (bs ! 4) AND 0x03,
                   wfd_sessionavail := drop_bit 4 (ucast (bs ! 4)) AND 0x03,
                   wfd_cpsupport := ucast (bs ! 3) AND 0x01,
                   wfd_rtspport := push_bit 8 (ucast (bs ! 5)) + ucast (bs ! 6)\<rparr>)"
proof -
  have z: "\<And>b :: 8 word. ((ucast b :: 32 word) = 0) = (b = 0)"
    using ucast_byte_eq_iff [of _ 0] by simp
  have s: "\<And>b :: 8 word. ((ucast b :: 32 word) = 6) = (b = 6)"
    using ucast_byte_eq_iff [of _ 6] by simp
  from assms(2) have r: "subelem bs 0 = Some (ucast (bs ! 0))" "subelem bs 1 = Some (ucast (bs ! 1))"
    "subelem bs 2 = Some (ucast (bs ! 2))" "subelem bs 3 = Some (ucast (bs ! 3))"
    "subelem bs 4 = Some (ucast (bs ! 4))" "subelem bs 5 = Some (ucast (bs ! 5))"
    "subelem bs 6 = Some (ucast (bs ! 6))"
    "subelem bs (Suc 0) = Some (ucast (bs ! Suc 0))"
    by (auto simp: subelem_def)
  from assms(1) show ?thesis
    by (simp add: p2p_parse_wfd_dev_info_def length_field_rejected_def store_wfd_dev_info_def
        r Bit0_def Bit1_def z s)
qed

text \<open>
  Claim C1.  The claim asks that the capability fields stay unchanged unless the length
  field is \<open>0x00 0x06\<close>.  On a nine-byte sub-element whose length field is
  \<open>0x00 0x07\<close> the parser nevertheless stores the capability fields and sets
  \<open>wfd_enabled\<close>: the test rejects only when both length bytes are wrong.
\<close>

theorem wfd_dev_info_accepts_wrong_length_field:
  "p2p_parse_wfd_dev_info [0x00, 0x00, 0x07, 0x01, 0x45, 0x01, 0xBB, 0x00, 0x00] 9 peer_zero =
     Some (peer_zero\<lparr>wfd_enabled := True, wfd_devtype := 1, wfd_sessionavail := 0,
                      wfd_cpsupport := 1, wfd_rtspport := 443\<rparr>)"
  by (simp add: p2p_parse_wfd_dev_info_def length_field_rejected_def store_wfd_dev_info_def
      subelem_def Bit0_def Bit1_def)

section \<open>State transition engine: the suppression rule\<close>

text \<open>
  Claim C2.  While \<open>disconnecting\<close> is set, a state change to anything but "ready" or
  "online" only clears \<open>disconnecting\<close>: the state and the change mask stay as they
  were, and the world is untouched, so no property-change callback has been called.
\<close>

theorem disconnecting_suppresses_state_change:
  assumes "disconnecting s"
    and "g_variant_get_string v \<notin> {Some ''ready'', Some ''online''}"
  shows "\<exists>s'. connman_service_advance_state e (Some s) v w = Some (Some s', w) \<and>
              s' = s\<lparr>disconnecting := False\<rparr> \<and>
              state s' = state s \<and> \<not> disconnecting s' \<and> change_mask s' = change_mask s"
  using assms by (simp add: connman_service_advance_state_def g_strcmp0_eq_0_iff)

theorem disconnecting_suppresses_state_change_witness:
  "disconnecting (service_zero\<lparr>state := Some ''ready'', disconnecting := True\<rparr>) \<and>
   g_variant_get_string (GString ''idle'') \<notin> {Some ''ready'', Some ''online''} \<and>
   connman_service_advance_state sample_env
       (Some (service_zero\<lparr>state := Some ''ready'', disconnecting := True\<rparr>))
       (GString ''idle'') sys_zero =
     Some (Some (service_zero\<lparr>state := Some ''ready'', disconnecting := False\<rparr>), sys_zero)"
  using disconnecting_suppresses_state_change
    [of "service_zero\<lparr>state := Some ''ready'', disconnecting := True\<rparr>" "GString ''idle''"
        sample_env sys_zero]
  by (simp add: g_variant_get_string_def)

section \<open>Remote command facade: what a completion reports\<close>

lemma strrstr_from_eq_None:
  "strrstr_from h n p = None \<longleftrightarrow> (\<forall>q\<le>p. \<not> prefix n (drop q h))"
proof (induction p)
  case 0
  then show ?case by simp
next
  case (Suc p)
  then show ?case by (auto simp: le_Suc_eq)
qed

lemma sublist_iff_prefix_drop:
  "sublist n h \<longleftrightarrow> (\<exists>q\<le>length h - length n. length n \<le> length h \<and> prefix n (drop q h))"
proof
  assume "sublist n h"
  then obtain ps ss where h: "h = ps @ n @ ss"
    by (auto simp: sublist_def)
  then have "length ps \<le> length h - length n" "length n \<le> length h"
    "prefix n (drop (length ps) h)"
    by auto
  then show "\<exists>q\<le>length h - length n. length n \<le> length h \<and> prefix n (drop q h)"
    by blast
next
  assume "\<exists>q\<le>length h - length n. length n \<le> length h \<and> prefix n (drop q h)"
  then obtain q ss where "drop q h = n @ ss"
    by (auto simp: prefix_def)
  then have "h = take q h @ n @ ss"
    by (metis append_take_drop_id)
  then show "sublist n h"
    unfolding sublist_def by blast
qed

text \<open>\<open>g_strrstr\<close> finds the needle exactly when it occurs somewhere in the haystack.\<close>

lemma g_strrstr_found_iff: "g_strrstr h n \<noteq> None \<longleftrightarrow> sublist n h"
proof (cases "n = []")
  case True
  then show ?thesis by (simp add: g_strrstr_def)
next
  case nonempty: False
  show ?thesis
  proof (cases "length h < length n")
    case True
    then have "\<not> sublist n h"
      by (auto simp: sublist_def)
    with True nonempty show ?thesis
      by (simp add: g_strrstr_def)
  next
    case False
    then have "g_strrstr h n \<noteq> None \<longleftrightarrow> (\<exists>q\<le>length h - length n. prefix n (drop q h))"
      using nonempty by (simp add: g_strrstr_def strrstr_from_eq_None)
    also have "\<dots> \<longleftrightarrow> sublist n h"
      using False by (auto simp: sublist_iff_prefix_drop)
    finally show ?thesis .
  qed
qed

lemma service_connect_ret_error:
  "snd res = Some message \<Longrightarrow>
     service_connect_ret res = (sublist ''AlreadyConnected'' message \<or> fst res)"
  unfolding service_connect_ret_def g_strrstr_found_iff by simp

lemma peer_connect_ret_error:
  "snd res = Some message \<Longrightarrow>
     peer_connect_ret res =
       (sublist ''AlreadyConnected'' message \<or> sublist ''Operation aborted'' message \<or> fst res)"
  unfolding peer_connect_ret_def g_strrstr_found_iff by simp

lemma trace_g_object_unref: "trace (g_object_unref c w) = trace w"
  by (simp add: g_object_unref_def split: option.splits)

lemma trace_release_cancellable: "trace (snd (release_cancellable s w)) = trace w"
  by (simp add: release_cancellable_def trace_g_object_unref split: option.splits)

lemma trace_invoke_connect_cb:
  "trace (invoke_connect_cb cbd r w) =
     trace w @ (case cb cbd of None \<Rightarrow> [] | Some f \<Rightarrow> [ConnectCb f r (data cbd)])"
  by (simp add: invoke_connect_cb_def emit_def split: option.splits)

lemma lookup_invoke_connect_cb:
  "lookup_cancellable (invoke_connect_cb cbd r w) c = lookup_cancellable w c"
  by (simp add: invoke_connect_cb_def lookup_cancellable_def emit_def split: option.splits)

lemma invalid_unref_invoke_connect_cb:
  "invalid_unref (invoke_connect_cb cbd r w) = invalid_unref w"
  by (simp add: invoke_connect_cb_def emit_def split: option.splits)

text \<open>
  Claim C3.  A completion that is not cancelled and carries an error calls the caller's
  callback once, with TRUE exactly when the message contains "AlreadyConnected" (for a
  peer: or "Operation aborted") somewhere, or the finish call itself returned TRUE.
  The match is containment: the message need not equal the marker.
\<close>

theorem connect_error_remapped_to_success:
  assumes "\<not> connect_cancelled service w" and "snd res = Some message" and "cb cbd = Some f"
  shows "trace (snd (connect_callback res cbd service w)) =
           trace w @ [ConnectCb f (sublist ''AlreadyConnected'' message \<or> fst res) (data cbd)] \<and>
         trace (snd (peer_connect_callback res cbd service w)) =
           trace w @ [ConnectCb f (sublist ''AlreadyConnected'' message \<or>
                                   sublist ''Operation aborted'' message \<or> fst res) (data cbd)]"
  using assms
  by (simp add: connect_callback_def peer_connect_callback_def trace_release_cancellable
      trace_invoke_connect_cb service_connect_ret_error peer_connect_ret_error)

theorem connect_error_remapped_to_success_witness:
  "\<not> connect_cancelled (service_zero\<lparr>cancellable := Some 0\<rparr>)
        (sys_zero\<lparr>cancellables := [Some \<lparr>ref_count = 1, cancelled = False\<rparr>]\<rparr>) \<and>
   ''net.connman.Error.AlreadyConnected: Already connected'' \<noteq> ''AlreadyConnected'' \<and>
   trace (snd (connect_callback
       (False, Some ''net.connman.Error.AlreadyConnected: Already connected'')
       \<lparr>cb = Some 7, data = 3\<rparr> (service_zero\<lparr>cancellable := Some 0\<rparr>)
       (sys_zero\<lparr>cancellables := [Some \<lparr>ref_count = 1, cancelled = False\<rparr>]\<rparr>))) =
     [ConnectCb 7 True 3] \<and>
   trace (snd (peer_connect_callback (False, Some ''GDBus.Error: Operation aborted'')
       \<lparr>cb = Some 7, data = 3\<rparr> (service_zero\<lparr>cancellable := Some 0\<rparr>)
       (sys_zero\<lparr>cancellables := [Some \<lparr>ref_count = 1, cancelled = False\<rparr>]\<rparr>))) =
     [ConnectCb 7 True 3]"
proof -
  let ?s = "service_zero\<lparr>cancellable := Some 0\<rparr>"
  let ?w = "sys_zero\<lparr>cancellables := [Some \<lparr>ref_count = 1, cancelled = False\<rparr>]\<rparr>"
  have live: "\<not> connect_cancelled ?s ?w"
    by (simp add: connect_cancelled_def g_cancellable_is_cancelled_def lookup_cancellable_def
        service_zero_def sys_zero_def)
  have a: "sublist ''AlreadyConnected'' ''net.connman.Error.AlreadyConnected: Already connected''"
    by code_simp
  have b: "sublist ''Operation aborted'' ''GDBus.Error: Operation aborted''"
    by code_simp
  show ?thesis
    using live a b
      connect_error_remapped_to_success [of ?s ?w
        "(False, Some ''net.connman.Error.AlreadyConnected: Already connected'')"
        "''net.connman.Error.AlreadyConnected: Already connected''" "\<lparr>cb = Some 7, data = 3\<rparr>" 7]
      connect_error_remapped_to_success [of ?s ?w
        "(False, Some ''GDBus.Error: Operation aborted'')"
        "''GDBus.Error: Operation aborted''" "\<lparr>cb = Some 7, data = 3\<rparr>" 7]
    by (simp add: sys_zero_def)
qed

lemma g_object_unref_last_reference:
  assumes "lookup_cancellable w c = Some obj" and "ref_count obj = 1"
  shows "lookup_cancellable (g_object_unref c w) c = None"
    and "invalid_unref (g_object_unref c w) = invalid_unref w"
  using assms by (auto simp: g_object_unref_def lookup_cancellable_def split: if_splits)

lemma cancelled_completion_effect:
  assumes own: "\<forall>c. cancellable service = Some c \<longrightarrow>
                  (\<exists>obj. lookup_cancellable w c = Some obj \<and> ref_count obj = 1)"
  shows "cancellable (fst (cancelled_completion cbd service w)) = None"
    and "trace (snd (cancelled_completion cbd service w)) =
           trace w @ (case cb cbd of None \<Rightarrow> [] | Some f \<Rightarrow> [ConnectCb f False (data cbd)])"
    and "\<forall>c. cancellable service = Some c \<longrightarrow>
           lookup_cancellable (snd (cancelled_completion cbd service w)) c = None"
    and "invalid_unref (snd (cancelled_completion cbd service w)) = invalid_unref w"
proof -
  show "cancellable (fst (cancelled_completion cbd service w)) = None"
    by (simp add: cancelled_completion_def split: option.splits)
  show "trace (snd (cancelled_completion cbd service w)) =
          trace w @ (case cb cbd of None \<Rightarrow> [] | Some f \<Rightarrow> [ConnectCb f False (data cbd)])"
    by (simp add: cancelled_completion_def trace_invoke_connect_cb trace_g_object_unref
        split: option.splits)
  show "\<forall>c. cancellable service = Some c \<longrightarrow>
          lookup_cancellable (snd (cancelled_completion cbd service w)) c = None"
    using own
    by (auto simp: cancelled_completion_def lookup_invoke_connect_cb g_object_unref_last_reference)
  show "invalid_unref (snd (cancelled_completion cbd service w)) = invalid_unref w"
    using own
    by (cases "cancellable service")
       (auto simp: cancelled_completion_def invalid_unref_invoke_connect_cb
          g_object_unref_last_reference)
qed

text \<open>
  Claim C4.  When the completion handler runs with the token cancelled or already NULL,
  the outcome does not depend on the remote result; the callback, if the caller gave
  one, is called exactly once and with FALSE; the token field is NULL afterwards; and a
  token on which the service held the only reference is gone from the store, without
  a release of a dead object.  The peer handler does the same.
\<close>

theorem cancelled_connect_completion:
  assumes "connect_cancelled service w"
    and "\<forall>c. cancellable service = Some c \<longrightarrow>
           (\<exists>obj. lookup_cancellable w c = Some obj \<and> ref_count obj = 1)"
  shows "connect_callback res cbd service w = connect_callback res' cbd service w \<and>
         cancellable (fst (connect_callback res cbd service w)) = None \<and>
         trace (snd (connect_callback res cbd service w)) =
           trace w @ (case cb cbd of None \<Rightarrow> [] | Some f \<Rightarrow> [ConnectCb f False (data cbd)]) \<and>
         (\<forall>c. cancellable service = Some c \<longrightarrow>
            lookup_cancellable (snd (connect_callback res cbd service w)) c = None) \<and>
         invalid_unref (snd (connect_callback res cbd service w)) = invalid_unref w \<and>
         peer_connect_callback res cbd service w = connect_callback res cbd service w"
  using assms(1) cancelled_completion_effect [OF assms(2), of cbd]
  by (simp add: connect_callback_def peer_connect_callback_def)

theorem cancelled_connect_completion_witness:
  "connect_cancelled (service_zero\<lparr>cancellable := Some 0\<rparr>)
      (sys_zero\<lparr>cancellables := [Some \<lparr>ref_count = 1, cancelled = True\<rparr>]\<rparr>) \<and>
   trace (snd (connect_callback (True, None) \<lparr>cb = Some 7, data = 3\<rparr>
      (service_zero\<lparr>cancellable := Some 0\<rparr>)
      (sys_zero\<lparr>cancellables := [Some \<lparr>ref_count = 1, cancelled = True\<rparr>]\<rparr>))) =
     [ConnectCb 7 False 3] \<and>
   lookup_cancellable (snd (connect_callback (True, None) \<lparr>cb = Some 7, data = 3\<rparr>
      (service_zero\<lparr>cancellable := Some 0\<rparr>)
      (sys_zero\<lparr>cancellables := [Some \<lparr>ref_count = 1, cancelled = True\<rparr>]\<rparr>))) 0 = None"
proof -
  let ?s = "service_zero\<lparr>cancellable := Some 0\<rparr>"
  let ?w = "sys_zero\<lparr>cancellables := [Some \<lparr>ref_count = 1, cancelled = True\<rparr>]\<rparr>"
  have cancelled: "connect_cancelled ?s ?w"
    by (simp add: connect_cancelled_def g_cancellable_is_cancelled_def lookup_cancellable_def
        service_zero_def sys_zero_def)
  have own: "\<forall>c. cancellable ?s = Some c \<longrightarrow>
               (\<exists>obj. lookup_cancellable ?w c = Some obj \<and> ref_count obj = 1)"
    by (simp add: lookup_cancellable_def service_zero_def sys_zero_def)
  show ?thesis
    using cancelled
      cancelled_connect_completion [OF cancelled own, of "(True, None)" "\<lparr>cb = Some 7, data = 3\<rparr>"]
    by (simp add: sys_zero_def service_zero_def)
qed

section \<open>Remote command facade: NULL service\<close>

text \<open>
  Claim C10.  Every command of the facade, called with a NULL service, returns FALSE
  (\<open>connman_service_fetch_properties\<close>: NULL) and leaves the world as it was: no
  remote call is recorded and nothing is changed.
\<close>

theorem null_service_is_refused:
  "connman_service_connect None f d w = (False, None, w) \<and>
   connman_peer_connect None f d w = (False, None, w) \<and>
   connman_service_disconnect e None w = (False, None, w) \<and>
   connman_peer_disconnect e None w = (False, None, w) \<and>
   connman_service_remove e None w = (False, None, w) \<and>
   connman_service_reject_peer e None w = (False, None, w) \<and>
   connman_service_set_default e None w = (False, None, w) \<and>
   connman_service_set_ipv4 e None i4 w = (False, None, w) \<and>
   connman_service_set_ipv6 e None i6 w = (False, None, w) \<and>
   connman_service_set_proxy e None px w = (False, None, w) \<and>
   connman_service_set_nameservers e None ns w = (False, None, w) \<and>
   connman_service_set_autoconnect e None b w = (False, None, w) \<and>
   connman_service_set_run_online_check e None b w = (False, None, w) \<and>
   connman_service_set_passphrase e None pw w = (False, None, w) \<and>
   connman_service_get_ipinfo e None w = Some (False, None, w) \<and>
   connman_service_get_proxyinfo e None w = Some (False, None, w) \<and>
   connman_service_fetch_properties e None w = (None, w)"
  by (simp add: connman_service_connect_def connman_peer_connect_def
      connman_service_disconnect_def connman_peer_disconnect_def connman_service_remove_def
      connman_service_reject_peer_def connman_service_set_default_def
      connman_service_set_ipv4_def connman_service_set_ipv6_def connman_service_set_proxy_def
      connman_service_set_nameservers_def connman_service_set_autoconnect_def
      connman_service_set_run_online_check_def connman_service_set_passphrase_def
      connman_service_get_ipinfo_def connman_service_get_proxyinfo_def
      connman_service_fetch_properties_def)

section \<open>Property decoder: the BSS list\<close>

text \<open>On a dictionary built from keys and values, the search is \<open>map_of\<close>.\<close>

lemma dict_find_sv_entries:
  "dict_find (map (\<lambda>kv. sv_entry (fst kv) (snd kv)) kvs) key =
     map_option GBoxed (map_of kvs key)"
proof (induction kvs)
  case Nil
  then show ?case by simp
next
  case (Cons kv kvs)
  then show ?case
    by (cases kv) (simp add: sv_entry_def)
qed

lemma list_all_sv_entries:
  "list_all is_dict_entry (map (\<lambda>kv. sv_entry (fst kv) (snd kv)) kvs)"
  by (induction kvs) (simp_all add: is_dict_entry_def sv_entry_def)

lemma lookup_value_sv_entries:
  "g_variant_lookup_value (GContainer (map (\<lambda>kv. sv_entry (fst kv) (snd kv)) kvs)) key ty =
     (case map_of kvs key of None \<Rightarrow> None | Some x \<Rightarrow> if ty x then Some x else None)"
  by (simp add: g_variant_lookup_value_def list_all_sv_entries dict_find_sv_entries
      split: option.splits)

lemma bss_info_of_struct: "bss_info_of (bss_struct kvs) = Some (spec_bss_entry kvs)"
proof -
  have child: "g_variant_get_child_value (bss_struct kvs) 0 =
      Some (GContainer (map (\<lambda>kv. sv_entry (fst kv) (snd kv)) kvs))"
    by (simp add: bss_struct_def g_variant_get_child_value_def g_variant_children_def)
  have id: "(case (case map_of kvs ''Id'' of
                     None \<Rightarrow> None
                   | Some x \<Rightarrow> if G_VARIANT_TYPE_STRING x then Some x else None) of
               None \<Rightarrow> []
             | Some x \<Rightarrow>
                 (case g_variant_get_string x of None \<Rightarrow> [] | Some b \<Rightarrow> fst (g_strlcpy b 18)))
            = bssid (spec_bss_entry kvs)"
    by (simp add: spec_bss_entry_def G_VARIANT_TYPE_STRING_def g_variant_get_string_def
        g_strlcpy_def split: option.splits gvariant.splits)
  have int32: "\<And>key. (case (case map_of kvs key of
                             None \<Rightarrow> None
                           | Some x \<Rightarrow> if G_VARIANT_TYPE_INT32 x then Some x else None) of
                       None \<Rightarrow> 0
                     | Some x \<Rightarrow> g_variant_get_int32 x)
                    = (case map_of kvs key of Some (GInt32 n) \<Rightarrow> n | _ \<Rightarrow> 0)"
    by (simp add: G_VARIANT_TYPE_INT32_def g_variant_get_int32_def
        split: option.splits gvariant.splits)
  show ?thesis
    by (simp add: bss_info_of_def child lookup_value_sv_entries id int32)
       (simp add: spec_bss_entry_def)
qed

lemma for_each_append_bss:
  "for_each append_bss (map bss_struct entries) acc = Some (acc @ map spec_bss_entry entries)"
  by (induction entries arbitrary: acc) (simp_all add: append_bss_def bss_info_of_struct)

lemma update_bss_bag:
  "update_bss (bss_bag entries) s = Some (s\<lparr>bss := Some (map spec_bss_entry entries)\<rparr>)"
  by (simp add: update_bss_def bss_bag_def g_variant_children_def for_each_append_bss)

text \<open>
  What the two decoders do with a "BSS" property they come to: for any list of
  entries, each with any keys and values, a new list is stored that has one element
  per entry, in order, with the empty \<open>bssid\<close>, signal 0 or frequency 0 where the
  field is missing.  The snapshot loop then goes on with the next property.
\<close>

lemma update_property_BSS:
  "update_property e (''BSS'', bss_bag entries) i (s, w) =
     Some (i, s\<lparr>bss := Some (map spec_bss_entry entries)\<rparr>, w)"
  unfolding update_property_def g_strcmp0_eq_0_iff
  by (simp add: update_bss_bag counter_kept_def)

lemma property_changed_cb_BSS:
  "property_changed_cb e ''BSS'' (GBoxed (bss_bag entries)) s w =
     Some (s\<lparr>bss := Some (map spec_bss_entry entries)\<rparr>,
           if service_property_changed e
           then emit (ServicePropertyChanged (path s) ''BSS'' (bss_bag entries)) w else w)"
  unfolding property_changed_cb_def g_strcmp0_eq_0_iff
  by (simp add: update_bss_bag g_variant_get_variant_def)

lemma update_properties_loop_at_BSS:
  assumes "i < length properties" and "properties ! i = (''BSS'', bss_bag entries)"
  shows "update_properties_loop e properties i (s, w) =
           update_properties_loop e properties (Suc i)
             (s\<lparr>bss := Some (map spec_bss_entry entries)\<rparr>, w)"
  by (subst update_properties_loop.simps) (simp add: assms update_property_BSS)

lemma spec_bss_entry_defaults:
  "(map_of kvs ''Id'' = None \<longrightarrow> bssid (spec_bss_entry kvs) = []) \<and>
   (map_of kvs ''Signal'' = None \<longrightarrow> signal (spec_bss_entry kvs) = 0) \<and>
   (map_of kvs ''Frequency'' = None \<longrightarrow> frequency (spec_bss_entry kvs) = 0)"
  by (simp add: spec_bss_entry_def)

text \<open>
  What the snapshot loop does with a "WiFi.SSID" property: the next property it looks
  at is the one whose index is the length of the SSID plus one.
\<close>

lemma update_property_SSID:
  assumes "0 \<in> set bytes"
  shows "update_property e (''WiFi.SSID'', GByteString bytes) i (s, w) =
           map_option (\<lambda>r. (length (takeWhile (\<lambda>b. b \<noteq> 0) bytes), snd r, w))
             (update_ssid e bytes s)"
  unfolding update_property_def g_strcmp0_eq_0_iff
  using assms
  by (simp add: G_VARIANT_TYPE_BYTESTRING_def variant_bytes_def update_ssid_def g_strlcpy_def
      Let_def)

lemma update_properties_loop_at_SSID:
  assumes "i < length properties" and "properties ! i = (''WiFi.SSID'', GByteString bytes)"
    and "0 \<in> set bytes"
  shows "\<exists>s'. update_properties_loop e properties i (s, w) =
           update_properties_loop e properties (Suc (length (takeWhile (\<lambda>b. b \<noteq> 0) bytes)))
             (s', w)"
proof -
  from assms(3) obtain r where r: "update_ssid e bytes s = Some r"
    by (simp add: update_ssid_def Let_def)
  have "update_properties_loop e properties i (s, w) =
          update_properties_loop e properties (Suc (length (takeWhile (\<lambda>b. b \<noteq> 0) bytes)))
            (snd r, w)"
    by (subst update_properties_loop.simps)
       (simp add: assms(1,2) update_property_SSID [OF assms(3)] r)
  then show ?thesis ..
qed

text \<open>
  A snapshot whose second property is an empty SSID: the loop counter goes back to 0,
  the increment makes it 1, and the same property is decoded again, for ever.
\<close>

lemma returning_loop_is_elsewhere:
  assumes "update_properties_loop e properties i sw = Some y"
  shows "\<not> (properties = [(''Name'', GString n), (''WiFi.SSID'', GByteString [0])] \<and> i = 1)"
proof (rule update_properties_loop.raw_induct
    [where P = "\<lambda>e properties i sw y.
       \<not> (properties = [(''Name'', GString n), (''WiFi.SSID'', GByteString [0])] \<and> i = 1)",
     OF _ assms])
  fix loop e properties i sw y
  assume IH: "\<And>e properties i sw y. loop e properties i sw = Some y \<Longrightarrow>
      \<not> (properties = [(''Name'', GString n), (''WiFi.SSID'', GByteString [0])] \<and> i = 1)"
    and body: "(if i < length properties
                then case update_property e (properties ! i) i sw of
                       None \<Rightarrow> None
                     | Some r \<Rightarrow> loop e properties (Suc (fst r)) (snd r)
                else Some sw) = Some y"
  show "\<not> (properties = [(''Name'', GString n), (''WiFi.SSID'', GByteString [0])] \<and> i = 1)"
  proof
    assume here: "properties = [(''Name'', GString n), (''WiFi.SSID'', GByteString [0])] \<and> i = 1"
    obtain r where r: "update_ssid e [0] (fst sw) = Some r"
      by (simp add: update_ssid_def Let_def)
    have "update_property e (''WiFi.SSID'', GByteString [0]) 1 sw = Some (0, snd r, snd sw)"
      using update_property_SSID [of "[0]" e 1 "fst sw" "snd sw"] by (simp add: r)
    with here have step: "update_property e (properties ! i) i sw = Some (0, snd r, snd sw)"
      by simp
    from here have "i < length properties"
      by simp
    with body step have "loop e properties 1 (snd r, snd sw) = Some y"
      by simp
    from IH [OF this] here show False
      by simp
  qed
qed

lemma update_properties_loop_never_ends:
  "update_properties_loop e [(''Name'', GString n), (''WiFi.SSID'', GByteString [0])] 1 sw = None"
proof (cases "update_properties_loop e [(''Name'', GString n), (''WiFi.SSID'', GByteString [0])] 1 sw")
  case None
  then show ?thesis .
next
  case (Some y)
  from returning_loop_is_elsewhere [OF this, of n] show ?thesis
    by simp
qed

text \<open>
  Claim C8.  The claim has every "BSS" property update replace the stored list, the
  update never being given up.  In this snapshot of three properties the SSID "ab" comes
  first: the loop counter becomes 2, the increment makes it 3, and the loop is over.
  The "BSS" property (and "Name") is never decoded, and the list stays NULL.
\<close>

theorem snapshot_bss_skipped_after_ssid:
  "connman_service_update_properties sample_env (Some service_zero)
     (Some [(''WiFi.SSID'', GByteString [0x61, 0x62, 0x00]),
            (''Name'', GString ''net''),
            (''BSS'', bss_bag [[(''Id'', GString ''00:11:22:33:44:55''), (''Signal'', GInt32 40),
                                (''Frequency'', GInt32 2412)]])])
     sys_zero =
   Some (Some (service_zero\<lparr>ssid_len := 3, ssid := Some ''ab'', display_name := Some ''ab'',
                             bss := None, name := None\<rparr>),
         sys_zero)"
proof -
  let ?props = "[(''WiFi.SSID'', GByteString [0x61, 0x62, 0x00 :: 8 word]),
                 (''Name'', GString ''net''),
                 (''BSS'', bss_bag [[(''Id'', GString ''00:11:22:33:44:55''), (''Signal'', GInt32 40),
                                     (''Frequency'', GInt32 2412)]])]"
  have chars: "map (\<lambda>b. char_of (unat b)) [0x61, 0x62 :: 8 word] = ''ab''"
    by code_simp
  have ssid: "update_ssid sample_env [0x61, 0x62, 0x00] service_zero =
                Some (2, service_zero\<lparr>ssid_len := 3, ssid := Some ''ab'',
                                        display_name := Some ''ab''\<rparr>)"
    unfolding update_ssid_def
    by (simp add: chars g_strlcpy_def connman_service_update_display_name_def
        sample_env_def service_zero_def Let_def del: list.map)
  have first: "update_property sample_env (?props ! 0) 0 (service_zero, sys_zero) =
                 Some (2, service_zero\<lparr>ssid_len := 3, ssid := Some ''ab'',
                                         display_name := Some ''ab''\<rparr>, sys_zero)"
    using update_property_SSID [of "[0x61, 0x62, 0x00]" sample_env 0 service_zero sys_zero]
    by (simp add: ssid)
  have over: "update_properties_loop sample_env ?props 3 sw = Some sw" for sw
    by (subst update_properties_loop.simps) simp
  have "update_properties_loop sample_env ?props 0 (service_zero, sys_zero) =
          Some (service_zero\<lparr>ssid_len := 3, ssid := Some ''ab'', display_name := Some ''ab''\<rparr>,
                sys_zero)"
    by (subst update_properties_loop.simps) (simp only: first, simp add: over)
  then show ?thesis
    by (simp add: connman_service_update_properties_def service_zero_def)
qed

section \<open>Remote command facade: a connect that replaces a pending one\<close>

lemma after_two_connects_eq:
  "after_two_connects s c1 c2 w =
     (s\<lparr>disconnecting := False, cancellable := Some (Suc (length (cancellables w)))\<rparr>,
      w\<lparr>cancellables := cancellables w @ [Some \<lparr>ref_count = 1, cancelled = False\<rparr>,
                                           Some \<lparr>ref_count = 1, cancelled = False\<rparr>],
        trace := trace w @ [RemoteAsync CALL_CONNECT (Some (length (cancellables w))) c1,
                            RemoteAsync CALL_CONNECT (Some (Suc (length (cancellables w)))) c2]\<rparr>)"
  by (simp add: after_two_connects_def connman_service_connect_def g_cancellable_new_def emit_def)

lemma first_completion_after_two_connects:
  "completes res cbd (after_two_connects s c1 c2 w) =
     (s\<lparr>disconnecting := False, cancellable := None\<rparr>,
      w\<lparr>cancellables := cancellables w @ [Some \<lparr>ref_count = 1, cancelled = False\<rparr>, None],
        trace := trace w @ [RemoteAsync CALL_CONNECT (Some (length (cancellables w))) c1,
                            RemoteAsync CALL_CONNECT (Some (Suc (length (cancellables w)))) c2] @
                 (case cb cbd of
                    None \<Rightarrow> []
                  | Some f \<Rightarrow> [ConnectCb f (service_connect_ret res) (data cbd)])\<rparr>)"
  by (simp add: completes_def after_two_connects_eq connect_callback_def connect_cancelled_def
      g_cancellable_is_cancelled_def lookup_cancellable_def nth_append release_cancellable_def
      g_object_unref_def invoke_connect_cb_def emit_def list_update_append
      split: option.splits)

lemma second_completion_after_two_connects:
  "completes res' cbd' (completes res cbd (after_two_connects s c1 c2 w)) =
     (s\<lparr>disconnecting := False, cancellable := None\<rparr>,
      w\<lparr>cancellables := cancellables w @ [Some \<lparr>ref_count = 1, cancelled = False\<rparr>, None],
        trace := trace w @ [RemoteAsync CALL_CONNECT (Some (length (cancellables w))) c1,
                            RemoteAsync CALL_CONNECT (Some (Suc (length (cancellables w)))) c2] @
                 (case cb cbd of
                    None \<Rightarrow> []
                  | Some f \<Rightarrow> [ConnectCb f (service_connect_ret res) (data cbd)]) @
                 (case cb cbd' of None \<Rightarrow> [] | Some f \<Rightarrow> [ConnectCb f False (data cbd')])\<rparr>)"
  by (simp add: first_completion_after_two_connects)
     (simp add: completes_def connect_callback_def connect_cancelled_def cancelled_completion_def
      invoke_connect_cb_def emit_def split: option.splits)

text \<open>
  Claim C5, as amended.  A connect issued while another is pending puts a fresh token
  into the service; the token of the first connect is neither cancelled nor released
  and stays in the store.  Of the two completions, the one that arrives first (whose
  ever it is) finds a token that is not cancelled: its callback gets the outcome of the
  remote call, and the token field becomes NULL.  The completion that arrives second
  finds NULL and its callback gets FALSE.  The first token is still alive after both.
\<close>

theorem replaced_connect_completions:
  "cancellable (fst (after_two_connects s c1 c2 w)) = Some (Suc (length (cancellables w))) \<and>
   lookup_cancellable (snd (after_two_connects s c1 c2 w)) (length (cancellables w)) =
     Some \<lparr>ref_count = 1, cancelled = False\<rparr> \<and>
   \<not> connect_cancelled (fst (after_two_connects s c1 c2 w)) (snd (after_two_connects s c1 c2 w)) \<and>
   trace (snd (completes res cbd (after_two_connects s c1 c2 w))) =
     trace (snd (after_two_connects s c1 c2 w)) @
     (case cb cbd of None \<Rightarrow> [] | Some f \<Rightarrow> [ConnectCb f (service_connect_ret res) (data cbd)]) \<and>
   cancellable (fst (completes res cbd (after_two_connects s c1 c2 w))) = None \<and>
   trace (snd (completes res' cbd' (completes res cbd (after_two_connects s c1 c2 w)))) =
     trace (snd (completes res cbd (after_two_connects s c1 c2 w))) @
     (case cb cbd' of None \<Rightarrow> [] | Some f \<Rightarrow> [ConnectCb f False (data cbd')]) \<and>
   lookup_cancellable (snd (completes res' cbd' (completes res cbd (after_two_connects s c1 c2 w))))
       (length (cancellables w)) =
     Some \<lparr>ref_count = 1, cancelled = False\<rparr>"
proof -
  note two = after_two_connects_eq [of s c1 c2 w]
  note first = first_completion_after_two_connects [of res cbd s c1 c2 w]
  note second = second_completion_after_two_connects [of res' cbd' res cbd s c1 c2 w]
  have live: "\<not> connect_cancelled (fst (after_two_connects s c1 c2 w))
                  (snd (after_two_connects s c1 c2 w))"
    unfolding two
    by (simp add: connect_cancelled_def g_cancellable_is_cancelled_def lookup_cancellable_def
        nth_append)
  have kept: "lookup_cancellable (snd (after_two_connects s c1 c2 w)) (length (cancellables w)) =
                Some \<lparr>ref_count = 1, cancelled = False\<rparr>"
    unfolding two by (simp add: lookup_cancellable_def nth_append)
  have leaked: "lookup_cancellable
                  (snd (completes res' cbd' (completes res cbd (after_two_connects s c1 c2 w))))
                  (length (cancellables w)) = Some \<lparr>ref_count = 1, cancelled = False\<rparr>"
    by (simp only: second) (simp add: lookup_cancellable_def nth_append)
  have t1: "trace (snd (completes res cbd (after_two_connects s c1 c2 w))) =
              trace (snd (after_two_connects s c1 c2 w)) @
              (case cb cbd of
                 None \<Rightarrow> [] | Some f \<Rightarrow> [ConnectCb f (service_connect_ret res) (data cbd)])"
    by (simp only: first) (simp add: two)
  have t2: "trace (snd (completes res' cbd' (completes res cbd (after_two_connects s c1 c2 w)))) =
              trace (snd (completes res cbd (after_two_connects s c1 c2 w))) @
              (case cb cbd' of None \<Rightarrow> [] | Some f \<Rightarrow> [ConnectCb f False (data cbd')])"
    by (simp only: second) (simp add: first)
  have c2: "cancellable (fst (after_two_connects s c1 c2 w)) = Some (Suc (length (cancellables w)))"
    unfolding two by simp
  have c3: "cancellable (fst (completes res cbd (after_two_connects s c1 c2 w))) = None"
    by (simp only: first) simp
  from c2 kept live t1 c3 t2 leaked show ?thesis
    by blast
qed

theorem replaced_connect_completions_witness:
  "trace (snd (completes (False, None) \<lparr>cb = Some 2, data = 0\<rparr>
      (completes (True, None) \<lparr>cb = Some 1, data = 0\<rparr>
        (after_two_connects service_zero \<lparr>cb = Some 1, data = 0\<rparr> \<lparr>cb = Some 2, data = 0\<rparr>
           sys_zero)))) =
     [RemoteAsync CALL_CONNECT (Some 0) \<lparr>cb = Some 1, data = 0\<rparr>,
      RemoteAsync CALL_CONNECT (Some 1) \<lparr>cb = Some 2, data = 0\<rparr>,
      ConnectCb 1 True 0, ConnectCb 2 False 0]"
  using replaced_connect_completions
    [of service_zero "\<lparr>cb = Some 1, data = 0\<rparr>" "\<lparr>cb = Some 2, data = 0\<rparr>" sys_zero
        "(True, None)" "\<lparr>cb = Some 1, data = 0\<rparr>" "(False, None)" "\<lparr>cb = Some 2, data = 0\<rparr>"]
  by (simp add: after_two_connects_eq sys_zero_def service_connect_ret_def)

text \<open>
  The claim as stated has the callback of the prior connect called with failure.  Here
  the first connect, with callback 1, completes successfully after a second connect
  was issued, and callback 1 is called with TRUE.
\<close>

theorem replaced_connect_prior_callback_counterexample:
  "trace (snd (completes (True, None) \<lparr>cb = Some 1, data = 0\<rparr>
      (after_two_connects service_zero \<lparr>cb = Some 1, data = 0\<rparr> \<lparr>cb = Some 2, data = 0\<rparr>
         sys_zero))) =
     [RemoteAsync CALL_CONNECT (Some 0) \<lparr>cb = Some 1, data = 0\<rparr>,
      RemoteAsync CALL_CONNECT (Some 1) \<lparr>cb = Some 2, data = 0\<rparr>,
      ConnectCb 1 True 0]"
  by (simp add: first_completion_after_two_connects sys_zero_def service_connect_ret_def)

section \<open>State transition engine: applying a state change\<close>









lemma routing_off:
  "\<not> MULTIPLE_ROUTING_TABLE e \<or> type s \<noteq> CONNMAN_SERVICE_TYPE_ETHERNET \<Longrightarrow>
     routing_on_state_change e new s w = Some (s, w)"
  by (auto simp: routing_on_state_change_def)




lemma trace_diagnostics:
  "trace (diagnostics e s w) = trace w \<or>
   trace (diagnostics e s w) = trace w @ [TechnologyUpdateProperties]"
  by (simp add: diagnostics_def emit_def)








end
